theory Spec2Isabelle
  imports Complex_Main "HOL-Library.AList"
begin

section \<open>Values, errors and the four data files\<close>

text \<open>
  The module \<^verbatim>\<open>plotting_tool/file.py\<close> keeps its whole state in four files:
  \<^verbatim>\<open>ids.json\<close>, \<^verbatim>\<open>bundles.json\<close>, \<^verbatim>\<open>prices.csv\<close> and \<^verbatim>\<open>bundle_prices.csv\<close>.
  Every function re-reads the files it needs and writes them back, so the model passes a
  record of the four file contents through every call.

  Exceptions are values. The source raises \<^verbatim>\<open>ValueError\<close> itself; \<^verbatim>\<open>KeyError\<close> and
  \<^verbatim>\<open>TypeError\<close> come from dictionary lookups and from \<^verbatim>\<open>float\<close>.
\<close>

datatype error = ValueError string | KeyError string | TypeError string

text \<open>
  A cell of a CSV file is kept by what \<^verbatim>\<open>float\<close> makes of its text: \<open>Num x\<close> is a cell
  whose text is a number with value \<open>x\<close>, \<open>Txt s\<close> a cell with any other text (a
  timestamp, the empty string). Numbers are real numbers: the rounding of Python's
  floats is not modelled.
\<close>

datatype cell = Num real | Txt string

text \<open>
  The values of a row dictionary of \<^verbatim>\<open>csv.DictReader\<close>: the text of a cell, \<^verbatim>\<open>None\<close>
  (the reader's \<^verbatim>\<open>restval\<close>, for a column the line is too short for), and the list of
  surplus cells that the reader stores under the key \<^verbatim>\<open>None\<close> (its \<^verbatim>\<open>restkey\<close>).
  A dictionary is an association list in insertion order with keys \<open>Some name\<close> and
  \<open>None\<close>; \<open>AList.update\<close> is the assignment \<^verbatim>\<open>d[k] = v\<close> (in place for a key
  that is present, at the end otherwise), \<open>AList.delete\<close> removes a key and
  \<open>map_of\<close> looks one up.
\<close>

datatype pyval = Cell cell | PyNone | Rest "cell list"

type_synonym row = "(string option \<times> pyval) list"

record csv =
  header :: "string list"
  rows :: "cell list list"

type_synonym members = "(string \<times> real) list"

record files =
  ids_json :: "string list"
  bundles_json :: "(string \<times> members) list"
  prices_csv :: csv
  bundle_prices_csv :: csv

text \<open>
  What a call leaves behind: the exception it raised or the value it returned, and the
  files as they are afterwards.
\<close>

type_synonym 'a outcome = "(error + 'a) \<times> files"

definition bnd :: "error + 'a \<Rightarrow> ('a \<Rightarrow> error + 'b) \<Rightarrow> error + 'b" where
  "bnd m f = (case m of Inl e \<Rightarrow> Inl e | Inr x \<Rightarrow> f x)"

text \<open>A loop that produces one value per element and stops at the first exception.\<close>

fun map_rows :: "('a \<Rightarrow> error + 'b) \<Rightarrow> 'a list \<Rightarrow> error + 'b list" where
  "map_rows f [] = Inr []"
| "map_rows f (x # xs) =
     (case f x of
        Inl e \<Rightarrow> Inl e
      | Inr y \<Rightarrow> (case map_rows f xs of Inl e \<Rightarrow> Inl e | Inr ys \<Rightarrow> Inr (y # ys)))"

subsection \<open>\<^verbatim>\<open>csv.DictReader\<close> and \<^verbatim>\<open>csv.DictWriter\<close>\<close>

text \<open>
  \<^verbatim>\<open>DictReader.__next__\<close>: \<^verbatim>\<open>d = dict(zip(fieldnames, row))\<close>; a longer line puts its
  surplus under the key \<^verbatim>\<open>None\<close>, a shorter one gets \<^verbatim>\<open>None\<close> for the columns it
  lacks. Blank lines are skipped.
\<close>

definition read_row :: "string list \<Rightarrow> cell list \<Rightarrow> row" where
  "read_row fieldnames r =
     (let d = AList.updates (map Some fieldnames) (map Cell r) [];
          lf = length fieldnames;
          lr = length r
      in if lf < lr then AList.update None (Rest (drop lf r)) d
         else if lr < lf
           then fold (\<lambda>key. AList.update (Some key) PyNone) (drop lr fieldnames) d
         else d)"

definition read_csv :: "csv \<Rightarrow> row list" where
  "read_csv f = map (read_row (header f)) (filter (\<lambda>r. r \<noteq> []) (rows f))"

text \<open>The text the writer puts into a cell: \<^verbatim>\<open>None\<close> is written as the empty string.\<close>

fun str_cell :: "pyval \<Rightarrow> cell" where
  "str_cell (Cell c) = c"
| "str_cell PyNone = Txt []"
| "str_cell (Rest cs) = Txt ''[...]''"

text \<open>
  \<^verbatim>\<open>DictWriter._dict_to_list\<close> with the default \<^verbatim>\<open>extrasaction="raise"\<close> and
  \<^verbatim>\<open>restval=""\<close>: a key outside the field names raises \<^verbatim>\<open>ValueError\<close>, a missing key
  is written as the empty string.
\<close>

definition dict_to_list :: "string list \<Rightarrow> row \<Rightarrow> error + cell list" where
  "dict_to_list fieldnames rowdict =
     (if list_ex (\<lambda>k. k \<notin> set (map Some fieldnames)) (map fst rowdict)
      then Inl (ValueError ''dict contains fields not in fieldnames'')
      else Inr (map (\<lambda>key. case map_of rowdict (Some key) of
                             None \<Rightarrow> Txt []
                           | Some v \<Rightarrow> str_cell v) fieldnames))"

text \<open>\<^verbatim>\<open>row[key]\<close> and \<^verbatim>\<open>float(value)\<close>.\<close>

definition getitem :: "row \<Rightarrow> string \<Rightarrow> error + pyval" where
  "getitem d key = (case map_of d (Some key) of None \<Rightarrow> Inl (KeyError key) | Some v \<Rightarrow> Inr v)"

fun py_float :: "pyval \<Rightarrow> error + real" where
  "py_float (Cell (Num x)) = Inr x"
| "py_float (Cell (Txt s)) = Inl (ValueError ''could not convert string to float'')"
| "py_float PyNone = Inl (TypeError ''float() argument must be a string or a number'')"
| "py_float (Rest cs) = Inl (TypeError ''float() argument must be a string or a number'')"

text \<open>
  \<^verbatim>\<open>_write_csv_entry\<close>: open the file for appending and write one row with the given
  header as field names. The header line of the file is not read.
\<close>

definition write_csv_entry :: "csv \<Rightarrow> row \<Rightarrow> string list \<Rightarrow> error + csv" where
  "write_csv_entry f data hdr =
     bnd (dict_to_list hdr data) (\<lambda>cells. Inr (f\<lparr>rows := rows f @ [cells]\<rparr>))"

section \<open>The registries\<close>

definition load_cryptocurrency_ids :: "files \<Rightarrow> string list" where
  "load_cryptocurrency_ids fs = ids_json fs"

text \<open>
  \<^verbatim>\<open>json.loads\<close> builds each object as a dictionary, pair by pair, so a repeated key
  keeps its last value.
\<close>

definition load_bundles :: "files \<Rightarrow> (string \<times> members) list" where
  "load_bundles fs =
     fold (case_prod AList.update) (map (\<lambda>(b, ms). (b, fold (case_prod AList.update) ms [])) (bundles_json fs)) []"

definition load_bundle_ids :: "files \<Rightarrow> string list" where
  "load_bundle_ids fs = map fst (load_bundles fs)"

definition valid_cryptocurrency_ids :: "files \<Rightarrow> string list \<Rightarrow> bool" where
  "valid_cryptocurrency_ids fs cryptocurrency_ids =
     list_all (\<lambda>cur_id. cur_id \<in> set (load_cryptocurrency_ids fs)) cryptocurrency_ids"

definition create_bundle :: "files \<Rightarrow> string \<Rightarrow> unit outcome" where
  "create_bundle fs bundle_id =
     (let bs = load_bundles fs in
      if bundle_id \<in> set (map fst bs)
      then (Inl (ValueError ''BUNDLE NAME ALREADY TAKEN''), fs)
      else (Inr (), fs\<lparr>bundles_json := AList.update bundle_id [] bs\<rparr>))"

definition exists_in_bundles :: "files \<Rightarrow> string \<Rightarrow> bool" where
  "exists_in_bundles fs cryptocurrency_id =
     list_ex (\<lambda>cur_list. cryptocurrency_id \<in> set (map fst cur_list)) (map snd (load_bundles fs))"

section \<open>Rewriting a ledger\<close>

text \<open>
  Each rewrite fills \<^verbatim>\<open>tmp.csv\<close> inside a \<^verbatim>\<open>with\<close> block and replaces the ledger
  only after the block: an exception while the rows are produced leaves the ledger as it
  was. The functions below return the new file, or the exception.
\<close>

definition add_column_to_csv :: "csv \<Rightarrow> string \<Rightarrow> error + csv" where
  "add_column_to_csv f column_name =
     (let hdr = header f @ [column_name] in
      bnd (map_rows (\<lambda>row. dict_to_list hdr (AList.update (Some column_name) (Cell (Num 0)) row))
             (read_csv f))
        (\<lambda>rs. Inr \<lparr>header = hdr, rows = rs\<rparr>))"

definition remove_column_from_csv :: "csv \<Rightarrow> string \<Rightarrow> error + csv" where
  "remove_column_from_csv f column_name =
     (if column_name \<notin> set (header f) then Inl (ValueError ''list.remove(x): x not in list'')
      else
        let hdr = remove1 column_name (header f) in
        bnd (map_rows (\<lambda>row. if map_of row (Some column_name) = None then Inl (KeyError column_name)
                              else dict_to_list hdr (AList.delete (Some column_name) row))
               (read_csv f))
          (\<lambda>rs. Inr \<lparr>header = hdr, rows = rs\<rparr>))"

text \<open>
  \<^verbatim>\<open>_convert_price_file_values\<close>: the dictionary comprehension multiplies every value
  whose key is not \<^verbatim>\<open>"timestamp"\<close>; the header that is written is the one passed in.
\<close>

definition convert_row :: "real \<Rightarrow> row \<Rightarrow> error + row" where
  "convert_row factor row =
     map_rows (\<lambda>(key, v). if key \<noteq> Some ''timestamp''
                           then bnd (py_float v) (\<lambda>x. Inr (key, Cell (Num (x * factor))))
                           else Inr (key, v)) row"

definition convert_price_file_values :: "csv \<Rightarrow> string list \<Rightarrow> real \<Rightarrow> error + csv" where
  "convert_price_file_values f hdr factor =
     bnd (map_rows (\<lambda>row. bnd (convert_row factor row) (dict_to_list hdr)) (read_csv f))
       (\<lambda>rs. Inr \<lparr>header = hdr, rows = rs\<rparr>)"

definition convert_prices :: "files \<Rightarrow> real \<Rightarrow> unit outcome" where
  "convert_prices fs factor =
     (let cryptocurr_header = ''timestamp'' # load_cryptocurrency_ids fs in
      case convert_price_file_values (prices_csv fs) cryptocurr_header factor of
        Inl e \<Rightarrow> (Inl e, fs)
      | Inr p \<Rightarrow>
          let fs1 = fs\<lparr>prices_csv := p\<rparr>;
              bundle_header = ''timestamp'' # load_bundle_ids fs1
          in case convert_price_file_values (bundle_prices_csv fs1) bundle_header factor of
               Inl e \<Rightarrow> (Inl e, fs1)
             | Inr b \<Rightarrow> (Inr (), fs1\<lparr>bundle_prices_csv := b\<rparr>))"

section \<open>Bundles and the bundle ledger\<close>

text \<open>\<^verbatim>\<open>itertools.zip_longest\<close> with the fill value \<^verbatim>\<open>None\<close>.\<close>

fun zip_longest :: "'a list \<Rightarrow> 'b list \<Rightarrow> ('a option \<times> 'b option) list" where
  "zip_longest [] [] = []"
| "zip_longest (x # xs) [] = (Some x, None) # zip_longest xs []"
| "zip_longest [] (y # ys) = (None, Some y) # zip_longest [] ys"
| "zip_longest (x # xs) (y # ys) = (Some x, Some y) # zip_longest xs ys"

text \<open>
  \<^verbatim>\<open>sum([float(cur_price_row[cryptocur_id]) * amount for cryptocur_id, amount in
  cryptocurrencies.items()])\<close>. In \<^verbatim>\<open>_update_bundle_prices\<close> the price row is
  \<^verbatim>\<open>None\<close> when the price ledger has run out of rows.
\<close>

definition bundle_value :: "row option \<Rightarrow> members \<Rightarrow> error + real" where
  "bundle_value cur_price_row cryptocurrencies =
     bnd (map_rows (\<lambda>(cryptocur_id, amount).
                      case cur_price_row of
                        None \<Rightarrow> Inl (TypeError ''NoneType object is not subscriptable'')
                      | Some r \<Rightarrow> bnd (getitem r cryptocur_id)
                                    (\<lambda>v. bnd (py_float v) (\<lambda>x. Inr (x * amount))))
            cryptocurrencies)
       (\<lambda>terms. Inr (sum_list terms))"

text \<open>
  One turn of the loop of \<^verbatim>\<open>_update_bundle_prices\<close>: an absent (or empty) bundle row
  is replaced by a row holding only the timestamp of the price row, the bundle's value is
  stored under its id, and the writer turns the dictionary into cells.
\<close>

definition update_bundle_row ::
  "string list \<Rightarrow> string \<Rightarrow> members \<Rightarrow> row option \<times> row option \<Rightarrow> error + cell list" where
  "update_bundle_row hdr bundle_id cryptocurrencies p =
     (case p of (cur_price_row, bundle_price_prow) \<Rightarrow>
        bnd (if bundle_price_prow = None \<or> bundle_price_prow = Some []
             then (case cur_price_row of
                     None \<Rightarrow> Inl (TypeError ''NoneType object is not subscriptable'')
                   | Some r \<Rightarrow> bnd (getitem r ''timestamp'') (\<lambda>ts. Inr [(Some ''timestamp'', ts)]))
             else Inr (case bundle_price_prow of Some d \<Rightarrow> d | None \<Rightarrow> []))
          (\<lambda>prow. bnd (bundle_value cur_price_row cryptocurrencies)
                    (\<lambda>v. dict_to_list hdr (AList.update (Some bundle_id) (Cell (Num v)) prow))))"

definition update_bundle_prices :: "files \<Rightarrow> string \<Rightarrow> members \<Rightarrow> unit outcome" where
  "update_bundle_prices fs bundle_id cryptocurrencies =
     (let hdr = ''timestamp'' # load_bundle_ids fs in
      case map_rows (update_bundle_row hdr bundle_id cryptocurrencies)
             (zip_longest (read_csv (prices_csv fs)) (read_csv (bundle_prices_csv fs))) of
        Inl e \<Rightarrow> (Inl e, fs)
      | Inr rs \<Rightarrow> (Inr (), fs\<lparr>bundle_prices_csv := \<lparr>header = hdr, rows = rs\<rparr>\<rparr>))"

text \<open>
  The values of a bundle dictionary are numbers, and the test
  \<^verbatim>\<open>cryptocur_id in bundles[bundle_id].values()\<close> of \<^verbatim>\<open>add_cryptocur_to_bundle\<close>
  compares a string with them: Python values of the two kinds, told apart by their
  constructor.
\<close>

datatype jval = JStr string | JNum real

definition add_cryptocur_to_bundle :: "files \<Rightarrow> string \<Rightarrow> string \<Rightarrow> real \<Rightarrow> unit outcome" where
  "add_cryptocur_to_bundle fs bundle_id cryptocur_id amount =
     (if \<not> valid_cryptocurrency_ids fs [cryptocur_id]
      then (Inl (ValueError ''GIVEN CRYPTOCURRENCY ID NOT FOUND''), fs)
      else
        let bs = load_bundles fs in
        case map_of bs bundle_id of
          None \<Rightarrow> (Inl (ValueError ''BUNDLE NOT FOUND''), fs)
        | Some b \<Rightarrow>
            if JStr cryptocur_id \<in> set (map (\<lambda>(k, v). JNum v) b)
            then (Inl (ValueError ''CRYPTOCURRENCY ALREADY IN BUNDLE''), fs)
            else
              let b' = AList.update cryptocur_id amount b;
                  fs1 = fs\<lparr>bundles_json := AList.update bundle_id b' bs\<rparr>
              in update_bundle_prices fs1 bundle_id b')"

definition remove_cryptocur_from_bundle :: "files \<Rightarrow> string \<Rightarrow> string \<Rightarrow> unit outcome" where
  "remove_cryptocur_from_bundle fs bundle_id cryptocur_id =
     (let bs = load_bundles fs in
      case map_of bs bundle_id of
        None \<Rightarrow> (Inl (ValueError ''BUNDLE NOT FOUND''), fs)
      | Some b \<Rightarrow>
          if cryptocur_id \<notin> set (map fst b)
          then (Inl (ValueError ''CRYPTOCURRENCY NOT ADDED TO BUNDLE''), fs)
          else
            let b' = AList.delete cryptocur_id b;
                fs1 = fs\<lparr>bundles_json := AList.update bundle_id b' bs\<rparr>
            in update_bundle_prices fs1 bundle_id b')"

definition delete_bundle :: "files \<Rightarrow> string \<Rightarrow> unit outcome" where
  "delete_bundle fs bundle_id =
     (let bs = load_bundles fs in
      case map_of bs bundle_id of
        None \<Rightarrow> (Inl (ValueError ''GIVEN BUNDLE ID NOT FOUND''), fs)
      | Some b \<Rightarrow>
          let fs1 = fs\<lparr>bundles_json := AList.delete bundle_id bs\<rparr> in
          if b \<noteq> []
          then (case remove_column_from_csv (bundle_prices_csv fs1) bundle_id of
                  Inl e \<Rightarrow> (Inl e, fs1)
                | Inr f \<Rightarrow> (Inr (), fs1\<lparr>bundle_prices_csv := f\<rparr>))
          else (Inr (), fs1))"

section \<open>Tracked assets and the price ledger\<close>

definition add_new_id :: "files \<Rightarrow> string \<Rightarrow> files" where
  "add_new_id fs cryptocurrency_id = fs\<lparr>ids_json := ids_json fs @ [cryptocurrency_id]\<rparr>"

definition add_new_cryptocurrency :: "files \<Rightarrow> string \<Rightarrow> string list outcome" where
  "add_new_cryptocurrency fs cryptocurrency_id =
     (let ids = load_cryptocurrency_ids fs in
      if cryptocurrency_id \<in> set ids
      then (Inl (ValueError ''GIVEN CRYPTOCURRENCY ID ALREADY ADDED''), fs)
      else
        let fs1 = add_new_id fs cryptocurrency_id in
        case add_column_to_csv (prices_csv fs1) cryptocurrency_id of
          Inl e \<Rightarrow> (Inl e, fs1)
        | Inr p \<Rightarrow> (Inr (ids @ [cryptocurrency_id]), fs1\<lparr>prices_csv := p\<rparr>))"

text \<open>\<^verbatim>\<open>list.remove\<close> drops the first occurrence and raises when there is none.\<close>

definition remove_id :: "files \<Rightarrow> string \<Rightarrow> error + files" where
  "remove_id fs cryptocurrency_id =
     (if cryptocurrency_id \<in> set (ids_json fs)
      then Inr (fs\<lparr>ids_json := remove1 cryptocurrency_id (ids_json fs)\<rparr>)
      else Inl (ValueError ''list.remove(x): x not in list''))"

definition remove_cryptocurrency :: "files \<Rightarrow> string \<Rightarrow> string list outcome" where
  "remove_cryptocurrency fs cryptocurrency_id =
     (let ids = load_cryptocurrency_ids fs in
      if cryptocurrency_id \<notin> set ids
      then (Inl (ValueError ''GIVEN CRYPTOCURRENCY ID NOT FOUND''), fs)
      else if exists_in_bundles fs cryptocurrency_id
      then (Inl (ValueError ''REMOVE CRYPTOCURRENCY FROM BUNDLES BEFORE DELETING IT''), fs)
      else
        case remove_id fs cryptocurrency_id of
          Inl e \<Rightarrow> (Inl e, fs)
        | Inr fs1 \<Rightarrow>
            (case remove_column_from_csv (prices_csv fs1) cryptocurrency_id of
               Inl e \<Rightarrow> (Inl e, fs1)
             | Inr p \<Rightarrow> (Inr (remove1 cryptocurrency_id ids), fs1\<lparr>prices_csv := p\<rparr>)))"

text \<open>
  \<^verbatim>\<open>write_cryptocur_prices_entry(data, header=None)\<close>: a header that is \<^verbatim>\<open>None\<close> or
  empty is replaced by the registry's; the check runs over \<^verbatim>\<open>header[1:]\<close>.
\<close>

definition write_cryptocur_prices_entry :: "files \<Rightarrow> row \<Rightarrow> string list option \<Rightarrow> unit outcome" where
  "write_cryptocur_prices_entry fs data header_arg =
     (let hdr = (if header_arg = None \<or> header_arg = Some []
                 then ''timestamp'' # load_cryptocurrency_ids fs
                 else (case header_arg of Some h \<Rightarrow> h | None \<Rightarrow> []))
      in if list_ex (\<lambda>cryptocurrency. Some cryptocurrency \<notin> set (map fst data)) (drop 1 hdr)
         then (Inl (ValueError ''CRYPTOCURRENCY VALUE MISSING''), fs)
         else (case write_csv_entry (prices_csv fs) data hdr of
                 Inl e \<Rightarrow> (Inl e, fs)
               | Inr p \<Rightarrow> (Inr (), fs\<lparr>prices_csv := p\<rparr>)))"

text \<open>The loop of \<^verbatim>\<open>write_bundle_prices_entry\<close> over \<^verbatim>\<open>bundles.items()\<close>.\<close>

fun bundle_entries :: "row \<Rightarrow> (string \<times> members) list \<Rightarrow> row \<Rightarrow> error + row" where
  "bundle_entries cryptocur_prices [] bundle_prices = Inr bundle_prices"
| "bundle_entries cryptocur_prices ((bundle_id, cryptocurrencies) # rest) bundle_prices =
     (case bundle_value (Some cryptocur_prices) cryptocurrencies of
        Inl e \<Rightarrow> Inl e
      | Inr v \<Rightarrow> bundle_entries cryptocur_prices rest
                  (AList.update (Some bundle_id) (Cell (Num v)) bundle_prices))"

definition write_bundle_prices_entry :: "files \<Rightarrow> row \<Rightarrow> unit outcome" where
  "write_bundle_prices_entry fs cryptocur_prices =
     (let bs = load_bundles fs in
      case getitem cryptocur_prices ''timestamp'' of
        Inl e \<Rightarrow> (Inl e, fs)
      | Inr ts \<Rightarrow>
          let hdr = ''timestamp'' # map fst bs in
          case bundle_entries cryptocur_prices bs [(Some ''timestamp'', ts)] of
            Inl e \<Rightarrow> (Inl e, fs)
          | Inr bundle_prices \<Rightarrow>
              (case write_csv_entry (bundle_prices_csv fs) bundle_prices hdr of
                 Inl e \<Rightarrow> (Inl e, fs)
               | Inr b \<Rightarrow> (Inr (), fs\<lparr>bundle_prices_csv := b\<rparr>)))"

text \<open>
  The ledger invariant of the specification, on a file as \<^verbatim>\<open>csv.DictReader\<close> reads it:
  every row has no key outside the header, and a value for every column of the header.
\<close>

definition row_matches :: "string list \<Rightarrow> row \<Rightarrow> bool" where
  "row_matches hdr r =
     (list_all (\<lambda>k. k \<in> set (map Some hdr)) (map fst r) \<and>
      list_all (\<lambda>c. case map_of r (Some c) of None \<Rightarrow> False | Some PyNone \<Rightarrow> False | Some v \<Rightarrow> True) hdr)"

definition ledger_ok :: "csv \<Rightarrow> bool" where
  "ledger_ok f = list_all (row_matches (header f)) (read_csv f)"

section \<open>Loading prices and statistics\<close>

text \<open>A loop that threads a state through the elements and stops at the first exception.\<close>

fun fold_rows :: "('s \<Rightarrow> 'a \<Rightarrow> error + 's) \<Rightarrow> 'a list \<Rightarrow> 's \<Rightarrow> error + 's" where
  "fold_rows f [] s = Inr s"
| "fold_rows f (x # xs) s = (case f s x of Inl e \<Rightarrow> Inl e | Inr s' \<Rightarrow> fold_rows f xs s')"

text \<open>
  The loaded lists hold prices and, under \<^verbatim>\<open>"timestamp"\<close>, the parsed timestamps.
  \<^verbatim>\<open>datetime.fromisoformat\<close> is the standard library's: the model takes the test
  \<open>accepts\<close>, which says what texts it accepts, as a parameter, and a cell that reads as a
  number is taken not to be a timestamp.
\<close>

datatype item = Price real | Stamp string

type_synonym series = "(string \<times> item list) list"

definition fromisoformat :: "(string \<Rightarrow> bool) \<Rightarrow> pyval \<Rightarrow> error + item" where
  "fromisoformat accepts v =
     (case v of
        Cell (Txt s) \<Rightarrow> if accepts s then Inr (Stamp s) else Inl (ValueError ''Invalid isoformat string'')
      | Cell (Num x) \<Rightarrow> Inl (ValueError ''Invalid isoformat string'')
      | _ \<Rightarrow> Inl (TypeError ''fromisoformat: argument must be str''))"

text \<open>\<^verbatim>\<open>prices = {cur_id: [] for cur_id in cryptocurrency_ids}; prices["timestamp"] = []\<close>\<close>

definition init_prices :: "string list \<Rightarrow> series" where
  "init_prices cryptocurrency_ids =
     AList.update ''timestamp'' [] (fold (\<lambda>cur_id. AList.update cur_id []) cryptocurrency_ids [])"

text \<open>The inner loop: \<^verbatim>\<open>num = float(row[cur_id]); if num > 0: prices[cur_id].append(num)\<close>\<close>

definition add_price :: "row \<Rightarrow> series \<Rightarrow> string \<Rightarrow> error + series" where
  "add_price row prices cur_id =
     bnd (getitem row cur_id)
       (\<lambda>v. bnd (py_float v)
          (\<lambda>num. Inr (if num > 0 then AList.map_entry cur_id (\<lambda>xs. xs @ [Price num]) prices
                       else prices)))"

definition load_price_row :: "(string \<Rightarrow> bool) \<Rightarrow> string list \<Rightarrow> series \<Rightarrow> row \<Rightarrow> error + series" where
  "load_price_row accepts cryptocurrency_ids prices row =
     bnd (getitem row ''timestamp'')
       (\<lambda>v. bnd (fromisoformat accepts v)
          (\<lambda>t. fold_rows (add_price row) cryptocurrency_ids
                 (AList.map_entry ''timestamp'' (\<lambda>xs. xs @ [t]) prices)))"

text \<open>An optional list argument that is \<^verbatim>\<open>None\<close> or empty stands for all ids.\<close>

definition ids_or_all :: "string list option \<Rightarrow> string list \<Rightarrow> string list" where
  "ids_or_all arg everything = (case arg of None \<Rightarrow> everything | Some [] \<Rightarrow> everything | Some xs \<Rightarrow> xs)"

definition load_cryptocur_prices :: "(string \<Rightarrow> bool) \<Rightarrow> files \<Rightarrow> string list option \<Rightarrow> error + series" where
  "load_cryptocur_prices accepts fs arg =
     (let cryptocurrency_ids = ids_or_all arg (load_cryptocurrency_ids fs) in
      fold_rows (load_price_row accepts cryptocurrency_ids) (read_csv (prices_csv fs))
        (init_prices cryptocurrency_ids))"

text \<open>
  \<^verbatim>\<open>get_csv_line_count\<close> counts the lines after the header; every row of the model is
  one line.
\<close>

definition get_csv_line_count :: "csv \<Rightarrow> nat" where
  "get_csv_line_count f = length (rows f)"

definition calculate_plotting_point_ratio :: "files \<Rightarrow> nat" where
  "calculate_plotting_point_ratio fs =
     (let prices_line_count = get_csv_line_count (prices_csv fs) in
      if prices_line_count \<ge> 2000 then prices_line_count div 1000 else 1)"

definition load_plotting_prices :: "(string \<Rightarrow> bool) \<Rightarrow> files \<Rightarrow> csv \<Rightarrow> string list \<Rightarrow> error + series" where
  "load_plotting_prices accepts fs f columns =
     (let point_ratio = calculate_plotting_point_ratio fs in
      fold_rows (\<lambda>prices (linenum, row).
                   if linenum mod point_ratio = 0 then load_price_row accepts columns prices row
                   else Inr prices)
        (enumerate 0 (read_csv f)) (init_prices columns))"

definition load_cryptocur_plot_prices :: "(string \<Rightarrow> bool) \<Rightarrow> files \<Rightarrow> string list option \<Rightarrow> error + series" where
  "load_cryptocur_plot_prices accepts fs arg =
     load_plotting_prices accepts fs (prices_csv fs) (ids_or_all arg (load_cryptocurrency_ids fs))"

definition load_bundle_plot_prices :: "(string \<Rightarrow> bool) \<Rightarrow> files \<Rightarrow> string list option \<Rightarrow> error + series" where
  "load_bundle_plot_prices accepts fs arg =
     load_plotting_prices accepts fs (bundle_prices_csv fs) (ids_or_all arg (load_bundle_ids fs))"

text \<open>
  \<^verbatim>\<open>load_cryptocur_statistics\<close> keeps two dictionaries while it scans:
  \<^verbatim>\<open>price_sums[cur] = [sum, count]\<close> and \<^verbatim>\<open>stats[cur] = {"min": ..., "max": ...}\<close>;
  the key \<^verbatim>\<open>"mean"\<close> is added after the scan.
\<close>

record stat =
  stat_min :: real
  stat_max :: real
  stat_mean :: "real option"

type_synonym scan = "(string \<times> real \<times> nat) list \<times> (string \<times> stat) list"

definition init_scan :: "string list \<Rightarrow> scan" where
  "init_scan cryptocurrency_ids =
     (fold (\<lambda>cur. AList.update cur (0, 0)) cryptocurrency_ids [],
      fold (\<lambda>cur_id. AList.update cur_id \<lparr>stat_min = 100000000, stat_max = 0, stat_mean = None\<rparr>)
        cryptocurrency_ids [])"

definition scan_num :: "string \<Rightarrow> real \<Rightarrow> scan \<Rightarrow> scan" where
  "scan_num cur_id num sc =
     (case sc of (price_sums, stats) \<Rightarrow>
        if num = 0 then (price_sums, stats)
        else
          let price_sums1 = AList.map_entry cur_id (\<lambda>(s, n). (s + num, n + 1)) price_sums;
              stats1 = AList.map_entry cur_id
                         (\<lambda>st. if num > stat_max st then st\<lparr>stat_max := num\<rparr> else st) stats;
              stats2 = AList.map_entry cur_id
                         (\<lambda>st. if num < stat_min st then st\<lparr>stat_min := num\<rparr> else st) stats1
          in (price_sums1, stats2))"

definition scan_cell :: "row \<Rightarrow> scan \<Rightarrow> string \<Rightarrow> error + scan" where
  "scan_cell row sc cur_id =
     bnd (getitem row cur_id) (\<lambda>v. bnd (py_float v) (\<lambda>num. Inr (scan_num cur_id num sc)))"

definition scan_row :: "string list \<Rightarrow> scan \<Rightarrow> row \<Rightarrow> error + scan" where
  "scan_row cryptocurrency_ids sc row = fold_rows (scan_cell row) cryptocurrency_ids sc"

text \<open>The closing loop over \<^verbatim>\<open>price_sums.items()\<close>.\<close>

definition set_mean :: "string \<times> real \<times> nat \<Rightarrow> (string \<times> stat) list \<Rightarrow> (string \<times> stat) list" where
  "set_mean entry stats =
     (case entry of (cur, price_sum, n) \<Rightarrow>
        if n = 0
        then AList.map_entry cur (\<lambda>st. st\<lparr>stat_mean := Some 0, stat_min := 0\<rparr>) stats
        else AList.map_entry cur (\<lambda>st. st\<lparr>stat_mean := Some (price_sum / real n)\<rparr>) stats)"

definition load_cryptocur_statistics :: "files \<Rightarrow> string list option \<Rightarrow> error + (string \<times> stat) list" where
  "load_cryptocur_statistics fs arg =
     (let cryptocurrency_ids = ids_or_all arg (load_cryptocurrency_ids fs) in
      bnd (fold_rows (scan_row cryptocurrency_ids) (read_csv (prices_csv fs))
             (init_scan cryptocurrency_ids))
        (\<lambda>(price_sums, stats). Inr (fold set_mean price_sums stats)))"

section \<open>The background updater\<close>

text \<open>
  \<^verbatim>\<open>BackgroundUpdateThread\<close> of \<^verbatim>\<open>plotting_tool/background.py\<close>. The event
  \<^verbatim>\<open>_stop\<close> is the flag \<open>stop_event\<close>; \<^verbatim>\<open>MAX_UPDATE_RETRIES\<close> is 3.
\<close>

datatype THREAD_STATUS = STOPPED | RUNNING | PAUSED

record thread =
  error_count :: nat
  update_time :: int
  vs_currency :: string
  last_update :: string
  stop_event :: bool
  currency_ids :: "string list"
  status :: THREAD_STATUS

definition MAX_UPDATE_RETRIES :: nat where
  "MAX_UPDATE_RETRIES = 3"

definition init :: "files \<Rightarrow> int \<Rightarrow> string \<Rightarrow> error + thread" where
  "init fs upd vs =
     (let cur_ids = load_cryptocurrency_ids fs in
      if cur_ids = [] then Inl (ValueError ''CANT START UPDATER, NO CRYPTOCURRENCY FOUND'')
      else Inr \<lparr>error_count = 0, update_time = upd, vs_currency = vs,
                last_update = ''WAITING UPDATE'', stop_event = False,
                currency_ids = cur_ids, status = RUNNING\<rparr>)"

definition pause :: "thread \<Rightarrow> thread" where
  "pause t = (if status t = RUNNING then t\<lparr>status := PAUSED\<rparr> else t)"

definition resume :: "thread \<Rightarrow> thread" where
  "resume t = (if status t = PAUSED then t\<lparr>status := RUNNING\<rparr> else t)"

definition stop :: "thread \<Rightarrow> thread" where
  "stop t = t\<lparr>status := STOPPED, stop_event := True\<rparr>"

definition stopped :: "thread \<Rightarrow> bool" where
  "stopped t = stop_event t"

definition set_cryptocur_ids :: "thread \<Rightarrow> string list \<Rightarrow> thread" where
  "set_cryptocur_ids t new_ids = t\<lparr>currency_ids := new_ids\<rparr>"

definition set_vs_currency :: "thread \<Rightarrow> string \<Rightarrow> thread" where
  "set_vs_currency t new_vs_currency = t\<lparr>vs_currency := new_vs_currency\<rparr>"

definition increase_error_count :: "thread \<Rightarrow> thread" where
  "increase_error_count t =
     (let t1 = t\<lparr>error_count := error_count t + 1\<rparr> in
      if error_count t1 > MAX_UPDATE_RETRIES then stop t1 else t1)"

text \<open>
  \<^verbatim>\<open>_update_prices\<close>. What \<^verbatim>\<open>request.fetch_data\<close> returned (\<^verbatim>\<open>None\<close>, or a dictionary
  from coin to a dictionary from currency to price), the text of \<^verbatim>\<open>datetime.now()\<close> and
  its \<^verbatim>\<open>strftime("%X")\<close> are inputs. An exception leaves the thread's fields as they
  were.
\<close>

type_synonym fetched = "(string \<times> (string \<times> real) list) list option"

definition update_prices :: "thread \<Rightarrow> files \<Rightarrow> fetched \<Rightarrow> string \<Rightarrow> string \<Rightarrow> thread outcome" where
  "update_prices t fs fetch now clock =
     (if fetch = None \<or> fetch = Some [] then (Inr (increase_error_count t), fs)
      else
        case map_rows (\<lambda>(key, v). case map_of v (vs_currency t) of
                                     None \<Rightarrow> Inl (KeyError (vs_currency t))
                                   | Some x \<Rightarrow> Inr (Some key, Cell (Num x)))
               (case fetch of Some result \<Rightarrow> result | None \<Rightarrow> []) of
          Inl e \<Rightarrow> (Inl e, fs)
        | Inr result \<Rightarrow>
            let result1 = AList.update (Some ''timestamp'') (Cell (Txt now)) result in
            case write_cryptocur_prices_entry fs result1 (Some (''timestamp'' # currency_ids t)) of
              (Inl e, fs1) \<Rightarrow> (Inl e, fs1)
            | (Inr u, fs1) \<Rightarrow>
                (case write_bundle_prices_entry fs1 result1 of
                   (Inl e, fs2) \<Rightarrow> (Inl e, fs2)
                 | (Inr u2, fs2) \<Rightarrow> (Inr (t\<lparr>last_update := clock\<rparr>), fs2)))"

text \<open>
  An execution is a sequence of events: a turn of the loop of \<^verbatim>\<open>run\<close> (the wait has
  ended), with what the quote source and the clock give in that turn, and the calls of
  the foreground. \<open>Foreground g\<close> is any change \<open>g\<close> that the foreground makes to the
  files. An exception that escapes \<^verbatim>\<open>run\<close> ends the thread: \<open>alive\<close> becomes false
  and no later turn happens.
\<close>

datatype event =
  Tick fetched string string
| Pause
| Resume
| Stop
| SetIds "string list"
| SetVs string
| Foreground "files \<Rightarrow> files"

record config =
  thr :: thread
  fsys :: files
  alive :: bool

fun step :: "event \<Rightarrow> config \<Rightarrow> config" where
  "step (Tick fetch now clock) c =
     (if \<not> alive c \<or> stopped (thr c) then c
      else if status (thr c) = RUNNING
      then (case update_prices (thr c) (fsys c) fetch now clock of
              (Inl e, fs') \<Rightarrow> c\<lparr>fsys := fs', alive := False\<rparr>
            | (Inr t', fs') \<Rightarrow> c\<lparr>thr := t', fsys := fs'\<rparr>)
      else c)"
| "step Pause c = c\<lparr>thr := pause (thr c)\<rparr>"
| "step Resume c = c\<lparr>thr := resume (thr c)\<rparr>"
| "step Stop c = c\<lparr>thr := stop (thr c)\<rparr>"
| "step (SetIds new_ids) c = c\<lparr>thr := set_cryptocur_ids (thr c) new_ids\<rparr>"
| "step (SetVs new_vs) c = c\<lparr>thr := set_vs_currency (thr c) new_vs\<rparr>"
| "step (Foreground g) c = c\<lparr>fsys := g (fsys c)\<rparr>"

fun run :: "config \<Rightarrow> event list \<Rightarrow> config" where
  "run c [] = c"
| "run c (e # es) = run (step e c) es"




section \<open>The example data of the test suite\<close>

text \<open>
  \<^verbatim>\<open>EXAMPLE_IDS\<close>, \<^verbatim>\<open>EXAMPLE_PRICES_DATA\<close>, \<^verbatim>\<open>EXAMPLE_BUNDLES\<close> and
  \<^verbatim>\<open>EXAMPLE_BUNDLE_PRICES\<close> of \<^verbatim>\<open>tests/test_file.py\<close>, and the default files.
\<close>

definition EXAMPLE_IDS :: "string list" where
  "EXAMPLE_IDS = [''bitcoin'', ''ethereum'']"

definition EXAMPLE_PRICES_DATA :: csv where
  "EXAMPLE_PRICES_DATA =
     \<lparr>header = [''timestamp'', ''bitcoin'', ''ethereum''],
      rows = [[Txt ''2022-03-29 14:58:22.365454'', Num 47891, Num 0],
              [Txt ''2022-03-29 14:59:22.365454'', Num 47892, Num 3542]]\<rparr>"

definition EXAMPLE_BUNDLES :: "(string \<times> members) list" where
  "EXAMPLE_BUNDLES = [(''test'', [(''bitcoin'', 10)])]"

definition EXAMPLE_BUNDLE_PRICES :: csv where
  "EXAMPLE_BUNDLE_PRICES =
     \<lparr>header = [''timestamp'', ''test''],
      rows = [[Txt ''2022-03-29 14:58:22.365454'', Num 478910],
              [Txt ''2022-03-29 14:59:22.365454'', Num 478920]]\<rparr>"

definition example_data :: files where
  "example_data =
     \<lparr>ids_json = EXAMPLE_IDS, bundles_json = EXAMPLE_BUNDLES,
      prices_csv = EXAMPLE_PRICES_DATA, bundle_prices_csv = EXAMPLE_BUNDLE_PRICES\<rparr>"

definition default_files :: files where
  "default_files =
     \<lparr>ids_json = [], bundles_json = [],
      prices_csv = \<lparr>header = [''timestamp''], rows = []\<rparr>,
      bundle_prices_csv = \<lparr>header = [''timestamp''], rows = []\<rparr>\<rparr>"

text \<open>A price ledger with a negative value, a zero and a positive value.\<close>

definition negative_data :: files where
  "negative_data =
     \<lparr>ids_json = [''bitcoin''], bundles_json = [],
      prices_csv = \<lparr>header = [''timestamp'', ''bitcoin''],
                    rows = [[Txt ''2022-03-29 14:58:22'', Num (-5)],
                            [Txt ''2022-03-29 14:59:22'', Num 0],
                            [Txt ''2022-03-29 15:00:22'', Num 3]]\<rparr>,
      bundle_prices_csv = \<lparr>header = [''timestamp''], rows = []\<rparr>\<rparr>"

text \<open>
  The example data with a second bundle and a bundle ledger that is one row shorter than
  the price ledger.
\<close>

definition short_bundle_ledger :: files where
  "short_bundle_ledger =
     \<lparr>ids_json = EXAMPLE_IDS,
      bundles_json = [(''test'', [(''bitcoin'', 10)]), (''other'', [(''ethereum'', 1)])],
      prices_csv = EXAMPLE_PRICES_DATA,
      bundle_prices_csv =
        \<lparr>header = [''timestamp'', ''test''],
         rows = [[Txt ''2022-03-29 14:58:22.365454'', Num 478910]]\<rparr>\<rparr>"

section \<open>Notions used in the statements\<close>

text \<open>
  The number in a cell of a row, and whether the cell holds one: the conditions under
  which \<^verbatim>\<open>float(row[cur_id])\<close> returns.
\<close>

definition cell_num :: "row \<Rightarrow> string \<Rightarrow> real" where
  "cell_num row c = (case map_of row (Some c) of Some (Cell (Num x)) \<Rightarrow> x | _ \<Rightarrow> 0)"

definition is_num :: "row \<Rightarrow> string \<Rightarrow> bool" where
  "is_num row c = (case map_of row (Some c) of Some (Cell (Num x)) \<Rightarrow> True | _ \<Rightarrow> False)"

definition numeric :: "string list \<Rightarrow> row list \<Rightarrow> bool" where
  "numeric cs rs = list_all (\<lambda>row. list_all (is_num row) cs) rs"

text \<open>A row whose timestamp \<^verbatim>\<open>datetime.fromisoformat\<close> accepts, and that timestamp.\<close>

definition has_stamp :: "(string \<Rightarrow> bool) \<Rightarrow> row \<Rightarrow> bool" where
  "has_stamp accepts row =
     (case map_of row (Some ''timestamp'') of Some (Cell (Txt s)) \<Rightarrow> accepts s | _ \<Rightarrow> False)"

definition stamp_of :: "row \<Rightarrow> string" where
  "stamp_of row = (case map_of row (Some ''timestamp'') of Some (Cell (Txt s)) \<Rightarrow> s | _ \<Rightarrow> [])"

text \<open>
  What the scanning loops do to the entries of one key: the projection of the two
  dictionaries of \<^verbatim>\<open>load_cryptocur_statistics\<close> on a key, one turn of its inner loop on
  that projection, its closing step, and the turns of the price loaders without their
  exceptions.
\<close>

definition scan_at :: "scan \<Rightarrow> string \<Rightarrow> (real \<times> nat) option \<times> stat option" where
  "scan_at sc c = (map_of (fst sc) c, map_of (snd sc) c)"

definition upd_stat :: "real \<Rightarrow> stat \<Rightarrow> stat" where
  "upd_stat num st =
     (let st1 = (if num > stat_max st then st\<lparr>stat_max := num\<rparr> else st)
      in if num < stat_min st1 then st1\<lparr>stat_min := num\<rparr> else st1)"

definition upd_at :: "real \<Rightarrow> (real \<times> nat) option \<times> stat option \<Rightarrow> (real \<times> nat) option \<times> stat option" where
  "upd_at num p =
     (if num = 0 then p
      else (map_option (\<lambda>(s, n). (s + num, n + 1)) (fst p), map_option (upd_stat num) (snd p)))"

definition fin_stat :: "real \<Rightarrow> nat \<Rightarrow> stat \<Rightarrow> stat" where
  "fin_stat s n st =
     (if n = 0 then st\<lparr>stat_mean := Some 0, stat_min := 0\<rparr> else st\<lparr>stat_mean := Some (s / real n)\<rparr>)"

definition put_price :: "string \<Rightarrow> real \<Rightarrow> series \<Rightarrow> series" where
  "put_price c num prices =
     (if num > 0 then AList.map_entry c (\<lambda>xs. xs @ [Price num]) prices else prices)"

definition put_row :: "string list \<Rightarrow> row \<Rightarrow> series \<Rightarrow> series" where
  "put_row cs row prices =
     fold (\<lambda>c. put_price c (cell_num row c)) cs
       (AList.map_entry ''timestamp'' (\<lambda>xs. xs @ [Stamp (stamp_of row)]) prices)"

text \<open>
  A ledger in the shape the registries promise: distinct column names, one cell per
  column in every row, and a number in every column but \<^verbatim>\<open>timestamp\<close>; and the ledger
  with every such number multiplied by a factor.
\<close>

definition scale_cell :: "real \<Rightarrow> string \<Rightarrow> cell \<Rightarrow> cell" where
  "scale_cell factor column c =
     (if column = ''timestamp'' then c else (case c of Num x \<Rightarrow> Num (x * factor) | Txt s \<Rightarrow> Txt s))"

definition scale_csv :: "real \<Rightarrow> csv \<Rightarrow> csv" where
  "scale_csv factor f =
     \<lparr>header = header f,
      rows = map (\<lambda>r. map (\<lambda>(column, c). scale_cell factor column c) (zip (header f) r)) (rows f)\<rparr>"

definition priced_cell :: "string \<times> cell \<Rightarrow> bool" where
  "priced_cell p = (case p of (column, c) \<Rightarrow>
     column = ''timestamp'' \<or> (case c of Num x \<Rightarrow> True | Txt s \<Rightarrow> False))"

definition well_formed :: "csv \<Rightarrow> bool" where
  "well_formed f =
     (distinct (header f) \<and> header f \<noteq> [] \<and>
      list_all (\<lambda>r. length r = length (header f) \<and> list_all priced_cell (zip (header f) r)) (rows f))"


section \<open>Loops that raise nothing\<close>

lemma fold_rows_ok:
  "(\<And>s x. x \<in> set xs \<Longrightarrow> f s x = Inr (g x s)) \<Longrightarrow> fold_rows f xs s = Inr (fold g xs s)"
  by (induction xs arbitrary: s) simp_all

lemma float_num:
  "is_num row c \<Longrightarrow> bnd (getitem row c) (\<lambda>v. bnd (py_float v) k) = k (cell_num row c)"
  by (auto simp: is_num_def cell_num_def getitem_def bnd_def split: option.splits pyval.splits cell.splits)

lemma scan_cell_num: "is_num row c \<Longrightarrow> scan_cell row sc c = Inr (scan_num c (cell_num row c) sc)"
  by (simp add: scan_cell_def float_num)

lemma scan_row_num:
  "list_all (is_num row) cs \<Longrightarrow> scan_row cs sc row = Inr (fold (\<lambda>c. scan_num c (cell_num row c)) cs sc)"
  unfolding scan_row_def by (rule fold_rows_ok) (simp add: scan_cell_num list_all_iff)

lemma scan_rows_num:
  "numeric cs rs \<Longrightarrow>
   fold_rows (scan_row cs) rs sc = Inr (fold (\<lambda>row. fold (\<lambda>c. scan_num c (cell_num row c)) cs) rs sc)"
  by (rule fold_rows_ok) (simp add: numeric_def scan_row_num list_all_iff)

lemma scan_at_scan_num:
  "scan_at (scan_num c num sc) c' = (if c' = c then upd_at num (scan_at sc c) else scan_at sc c')"
  by (cases sc)
     (auto simp: scan_at_def scan_num_def upd_at_def upd_stat_def Let_def map_of_map_entry
        split: option.splits)

lemma scan_at_fold_ids:
  "distinct cs \<Longrightarrow>
   scan_at (fold (\<lambda>c. scan_num c (val c)) cs sc) cur
     = (if cur \<in> set cs then upd_at (val cur) (scan_at sc cur) else scan_at sc cur)"
  by (induction cs arbitrary: sc) (auto simp: scan_at_scan_num)

lemma scan_at_fold_rows:
  "distinct cs \<Longrightarrow> cur \<in> set cs \<Longrightarrow>
   scan_at (fold (\<lambda>row. fold (\<lambda>c. scan_num c (cell_num row c)) cs) rs sc) cur
     = fold (\<lambda>row. upd_at (cell_num row cur)) rs (scan_at sc cur)"
  by (induction rs arbitrary: sc) (simp_all add: scan_at_fold_ids)

lemma fold_upd_at:
  "fold (\<lambda>row. upd_at (val row)) rs (Some (s, n), Some st)
     = (Some (s + sum_list (filter (\<lambda>x. x \<noteq> 0) (map val rs)),
              n + length (filter (\<lambda>x. x \<noteq> 0) (map val rs))),
        Some \<lparr>stat_min = fold min (filter (\<lambda>x. x \<noteq> 0) (map val rs)) (stat_min st),
              stat_max = fold max (filter (\<lambda>x. x \<noteq> 0) (map val rs)) (stat_max st),
              stat_mean = stat_mean st\<rparr>)"
proof (induction rs arbitrary: s n st)
  case Nil
  then show ?case by simp
next
  case (Cons r rs)
  show ?case
  proof (cases "val r = 0")
    case True
    then show ?thesis using Cons.IH[of s n st] by (simp add: upd_at_def)
  next
    case False
    then show ?thesis
      using Cons.IH[of "s + val r" "n + 1" "upd_stat (val r) st"]
      by (auto simp: upd_at_def upd_stat_def Let_def min_def max_def algebra_simps)
  qed
qed

lemma map_of_fold_update:
  "map_of (fold (\<lambda>c. AList.update c v) cs al) k = (if k \<in> set cs then Some v else map_of al k)"
  by (induction cs arbitrary: al) (auto simp: update_conv')

lemma scan_at_init:
  "cur \<in> set cs \<Longrightarrow>
   scan_at (init_scan cs) cur = (Some (0, 0), Some \<lparr>stat_min = 100000000, stat_max = 0, stat_mean = None\<rparr>)"
  by (simp add: scan_at_def init_scan_def map_of_fold_update)

lemma distinct_fold_update:
  "distinct (map fst al) \<Longrightarrow> distinct (map fst (fold (\<lambda>c. AList.update c v) cs al))"
  by (induction cs arbitrary: al) (simp_all add: distinct_update)

lemma keys_map_entry: "map fst (AList.map_entry k f xs) = map fst xs"
  by (induction xs) simp_all

lemma keys_scan_num: "map fst (fst (scan_num c num sc)) = map fst (fst sc)"
  by (cases sc) (simp add: scan_num_def Let_def keys_map_entry)

lemma keys_fold_ids: "map fst (fst (fold (\<lambda>c. scan_num c (val c)) cs sc)) = map fst (fst sc)"
  by (induction cs arbitrary: sc) (simp_all add: keys_scan_num)

lemma keys_fold_rows:
  "map fst (fst (fold (\<lambda>row. fold (\<lambda>c. scan_num c (val row c)) cs) rs sc)) = map fst (fst sc)"
  by (induction rs arbitrary: sc) (simp_all add: keys_fold_ids)

lemma distinct_init_scan: "distinct (map fst (fst (init_scan cs)))"
  by (simp add: init_scan_def distinct_fold_update)

lemma map_of_set_mean:
  "map_of (set_mean (c, s, n) stats) k
     = (if k = c then map_option (fin_stat s n) (map_of stats k) else map_of stats k)"
  by (auto simp: set_mean_def fin_stat_def map_of_map_entry split: option.splits)

lemma map_of_fold_set_mean:
  "distinct (map fst psums) \<Longrightarrow>
   map_of (fold set_mean psums stats) cur
     = (case map_of psums cur of
          None \<Rightarrow> map_of stats cur
        | Some (s, n) \<Rightarrow> map_option (fin_stat s n) (map_of stats cur))"
proof (induction psums arbitrary: stats)
  case Nil
  then show ?case by simp
next
  case (Cons e psums)
  obtain c s n where e: "e = (c, s, n)" by (cases e)
  have d: "distinct (map fst psums)" and notin: "c \<notin> fst ` set psums" using Cons.prems e by auto
  show ?case
  proof (cases "cur = c")
    case True
    then have "map_of psums cur = None" using notin by (simp add: map_of_eq_None_iff)
    then show ?thesis using Cons.IH[OF d, of "set_mean e stats"] True
      unfolding e by (simp add: map_of_set_mean)
  next
    case False
    then show ?thesis using Cons.IH[OF d, of "set_mean e stats"]
      unfolding e by (simp add: map_of_set_mean split: option.splits)
  qed
qed

section \<open>The statistics of a column\<close>

lemma statistics_of_column:
  assumes d: "distinct cs" and num: "numeric cs (read_csv (prices_csv fs))"
      and cs: "cs = ids_or_all arg (load_cryptocurrency_ids fs)"
      and cur: "cur \<in> set cs"
      and vs: "vs = filter (\<lambda>x. x \<noteq> 0) (map (\<lambda>row. cell_num row cur) (read_csv (prices_csv fs)))"
  shows "\<exists>price_sums stats out.
           fold_rows (scan_row cs) (read_csv (prices_csv fs)) (init_scan cs) = Inr (price_sums, stats)
         \<and> map_of price_sums cur = Some (sum_list vs, length vs)
         \<and> load_cryptocur_statistics fs arg = Inr out
         \<and> map_of out cur
             = Some (if vs = [] then \<lparr>stat_min = 0, stat_max = 0, stat_mean = Some 0\<rparr>
                     else \<lparr>stat_min = Min (set (100000000 # vs)), stat_max = Max (set (0 # vs)),
                           stat_mean = Some (sum_list vs / real (length vs))\<rparr>)"
proof -
  let ?rs = "read_csv (prices_csv fs)"
  let ?sc = "fold (\<lambda>row. fold (\<lambda>c. scan_num c (cell_num row c)) cs) ?rs (init_scan cs)"
  have run: "fold_rows (scan_row cs) ?rs (init_scan cs) = Inr ?sc"
    using num by (rule scan_rows_num)
  have at: "scan_at ?sc cur
      = (Some (sum_list vs, length vs),
         Some \<lparr>stat_min = fold min vs 100000000, stat_max = fold max vs 0, stat_mean = None\<rparr>)"
    using scan_at_fold_rows[OF d cur, of ?rs "init_scan cs"] scan_at_init[OF cur]
      fold_upd_at[of "\<lambda>row. cell_num row cur" ?rs 0 0
        "\<lparr>stat_min = 100000000, stat_max = 0, stat_mean = None\<rparr>"] vs
    by simp
  have psums: "map_of (fst ?sc) cur = Some (sum_list vs, length vs)"
    and st: "map_of (snd ?sc) cur
      = Some \<lparr>stat_min = fold min vs 100000000, stat_max = fold max vs 0, stat_mean = None\<rparr>"
    using at by (simp_all add: scan_at_def)
  have dk: "distinct (map fst (fst ?sc))"
    by (simp add: keys_fold_rows distinct_init_scan)
  have out: "load_cryptocur_statistics fs arg = Inr (fold set_mean (fst ?sc) (snd ?sc))"
    using run cs by (simp add: load_cryptocur_statistics_def Let_def bnd_def split: prod.splits)
  have mn: "fold min vs 100000000 = Min (set (100000000 # vs))"
    by (rule Min.set_eq_fold[symmetric])
  have mx: "fold max vs 0 = Max (set (0 # vs))"
    by (rule Max.set_eq_fold[symmetric])
  have fin: "map_of (fold set_mean (fst ?sc) (snd ?sc)) cur
      = Some (if vs = [] then \<lparr>stat_min = 0, stat_max = 0, stat_mean = Some 0\<rparr>
              else \<lparr>stat_min = Min (set (100000000 # vs)), stat_max = Max (set (0 # vs)),
                    stat_mean = Some (sum_list vs / real (length vs))\<rparr>)"
    using map_of_fold_set_mean[OF dk, of "snd ?sc" cur] psums st mn mx
    by (auto simp: fin_stat_def)
  show ?thesis using run psums out fin by (cases ?sc) auto
qed


section \<open>The loaded price series of a column\<close>

lemma add_price_num:
  "is_num row c \<Longrightarrow> add_price row prices c = Inr (put_price c (cell_num row c) prices)"
  by (simp add: add_price_def float_num put_price_def)

lemma load_price_row_ok:
  assumes "has_stamp accepts row" and "list_all (is_num row) cs"
  shows "load_price_row accepts cs prices row = Inr (put_row cs row prices)"
proof -
  obtain s where s: "map_of row (Some ''timestamp'') = Some (Cell (Txt s))" "accepts s"
    using assms(1) by (auto simp: has_stamp_def split: option.splits pyval.splits cell.splits)
  have "fold_rows (add_price row) cs p = Inr (fold (\<lambda>c. put_price c (cell_num row c)) cs p)" for p
    by (rule fold_rows_ok) (use assms(2) in \<open>simp add: add_price_num list_all_iff\<close>)
  then show ?thesis using s
    by (simp add: load_price_row_def getitem_def bnd_def fromisoformat_def put_row_def stamp_of_def)
qed

lemma map_of_put_price:
  "map_of (put_price c num prices) k
     = (if k = c \<and> num > 0 then map_option (\<lambda>xs. xs @ [Price num]) (map_of prices k)
        else map_of prices k)"
  by (auto simp: put_price_def map_of_map_entry split: option.splits)

lemma map_of_fold_put_price:
  "distinct cs \<Longrightarrow>
   map_of (fold (\<lambda>c. put_price c (val c)) cs prices) cur
     = (if cur \<in> set cs \<and> val cur > 0
        then map_option (\<lambda>xs. xs @ [Price (val cur)]) (map_of prices cur)
        else map_of prices cur)"
  by (induction cs arbitrary: prices) (auto simp: map_of_put_price)

lemma map_of_put_row:
  "distinct cs \<Longrightarrow> cur \<in> set cs \<Longrightarrow> cur \<noteq> ''timestamp'' \<Longrightarrow>
   map_of (put_row cs row prices) cur
     = map_option (\<lambda>xs. xs @ map Price (filter (\<lambda>x. 0 < x) [cell_num row cur])) (map_of prices cur)"
  by (auto simp: put_row_def map_of_fold_put_price map_of_map_entry option.map_ident
      split: option.splits)

lemma map_of_fold_put_row:
  assumes "distinct cs" "cur \<in> set cs" "cur \<noteq> ''timestamp''"
  shows "map_of (fold (\<lambda>(i, row) prices. if keep i then put_row cs row prices else prices) irs prices) cur
     = map_option (\<lambda>xs. xs @ map Price (filter (\<lambda>x. 0 < x)
           (map (\<lambda>(i, row). cell_num row cur) (filter (\<lambda>(i, row). keep i) irs))))
         (map_of prices cur)"
proof (induction irs arbitrary: prices)
  case Nil
  then show ?case by (simp add: option.map_ident)
next
  case (Cons ir irs)
  obtain i row where ir: "ir = (i, row)" by (cases ir)
  show ?case
    unfolding ir
    by (simp add: Cons.IH map_of_put_row[OF assms] option.map_comp comp_def)
qed

lemma map_of_init_prices: "cur \<in> set cs \<Longrightarrow> map_of (init_prices cs) cur = Some []"
  by (simp add: init_prices_def update_conv' map_of_fold_update)

lemma load_plotting_prices_ok:
  assumes d: "distinct cs" and cur: "cur \<in> set cs" "cur \<noteq> ''timestamp''"
      and num: "numeric cs (read_csv f)"
      and ts: "list_all (has_stamp accepts) (read_csv f)"
  shows "\<exists>prices. load_plotting_prices accepts fs f cs = Inr prices
           \<and> map_of prices cur
               = Some (map Price (filter (\<lambda>x. 0 < x)
                   (map (\<lambda>(i, row). cell_num row cur)
                      (filter (\<lambda>(i, row). i mod calculate_plotting_point_ratio fs = 0)
                         (enumerate 0 (read_csv f))))))"
proof -
  let ?g = "\<lambda>(i, row) prices. if i mod calculate_plotting_point_ratio fs = 0 then put_row cs row prices else prices"
  have "fold_rows (\<lambda>prices (linenum, row).
            if linenum mod calculate_plotting_point_ratio fs = 0
            then load_price_row accepts cs prices row else Inr prices)
          (enumerate 0 (read_csv f)) (init_prices cs)
        = Inr (fold ?g (enumerate 0 (read_csv f)) (init_prices cs))"
  proof (rule fold_rows_ok)
    fix s x assume "x \<in> set (enumerate 0 (read_csv f))"
    then have "snd x \<in> set (read_csv f)" by (metis in_set_zipE enumerate_eq_zip prod.collapse)
    then have "has_stamp accepts (snd x)" "list_all (is_num (snd x)) cs"
      using num ts by (auto simp: numeric_def list_all_iff)
    then show "(case x of (linenum, row) \<Rightarrow>
                  if linenum mod calculate_plotting_point_ratio fs = 0
                  then load_price_row accepts cs s row else Inr s)
               = Inr (?g x s)"
      by (cases x) (simp add: load_price_row_ok)
  qed
  then show ?thesis
    using map_of_fold_put_row[OF d cur, of "\<lambda>i. i mod calculate_plotting_point_ratio fs = 0"
        "enumerate 0 (read_csv f)" "init_prices cs"] map_of_init_prices[OF cur(1)]
    by (simp add: load_plotting_prices_def Let_def)
qed

lemma load_prices_ok:
  assumes d: "distinct cs" and cur: "cur \<in> set cs" "cur \<noteq> ''timestamp''"
      and num: "numeric cs (read_csv (prices_csv fs))"
      and ts: "list_all (has_stamp accepts) (read_csv (prices_csv fs))"
      and cs: "cs = ids_or_all arg (load_cryptocurrency_ids fs)"
  shows "\<exists>prices. load_cryptocur_prices accepts fs arg = Inr prices
           \<and> map_of prices cur
               = Some (map Price (filter (\<lambda>x. 0 < x)
                   (map (\<lambda>row. cell_num row cur) (read_csv (prices_csv fs)))))"
proof -
  let ?rs = "read_csv (prices_csv fs)"
  have run: "fold_rows (load_price_row accepts cs) ?rs (init_prices cs)
        = Inr (fold (put_row cs) ?rs (init_prices cs))"
    by (rule fold_rows_ok) (use num ts in \<open>simp add: load_price_row_ok numeric_def list_all_iff\<close>)
  have "fold (put_row cs) rs p
      = fold (\<lambda>(i, row) prices. if True then put_row cs row prices else prices) (map (Pair (0::nat)) rs) p" for rs p
    by (induction rs arbitrary: p) simp_all
  then have "map_of (fold (put_row cs) ?rs (init_prices cs)) cur
      = Some (map Price (filter (\<lambda>x. 0 < x) (map (\<lambda>row. cell_num row cur) ?rs)))"
    using map_of_fold_put_row[OF d cur, of "\<lambda>i. True" "map (Pair (0::nat)) ?rs" "init_prices cs"]
      map_of_init_prices[OF cur(1)]
    by (simp add: comp_def)
  then show ?thesis using run cs by (simp add: load_cryptocur_prices_def Let_def)
qed


section \<open>The updater's error count\<close>














section \<open>The background updater: claims\<close>




text \<open>
  Claim C4. The updater is a machine of three states. Construction raises
  \<^verbatim>\<open>ValueError\<close> when the identifier registry is empty and otherwise gives a thread
  whose status is \<open>RUNNING\<close>; \<^verbatim>\<open>pause()\<close> takes \<open>RUNNING\<close> to \<open>PAUSED\<close> and changes
  nothing in any other state; \<^verbatim>\<open>resume()\<close> takes \<open>PAUSED\<close> to \<open>RUNNING\<close> and changes
  nothing in any other state; \<^verbatim>\<open>stop()\<close> takes every state to \<open>STOPPED\<close>, and no
  sequence of \<^verbatim>\<open>pause()\<close> and \<^verbatim>\<open>resume()\<close> calls after it leaves \<open>STOPPED\<close>.
\<close>

theorem poller_state_machine:
  "(load_cryptocurrency_ids fs = [] \<longrightarrow>
      init fs upd vs = Inl (ValueError ''CANT START UPDATER, NO CRYPTOCURRENCY FOUND''))
   \<and> (load_cryptocurrency_ids fs \<noteq> [] \<longrightarrow> (\<exists>t0. init fs upd vs = Inr t0 \<and> status t0 = RUNNING))
   \<and> (status t = RUNNING \<longrightarrow> pause t = t\<lparr>status := PAUSED\<rparr>)
   \<and> (status t \<noteq> RUNNING \<longrightarrow> pause t = t)
   \<and> (status t = PAUSED \<longrightarrow> resume t = t\<lparr>status := RUNNING\<rparr>)
   \<and> (status t \<noteq> PAUSED \<longrightarrow> resume t = t)
   \<and> status (stop t) = STOPPED
   \<and> (\<forall>calls. set calls \<subseteq> {pause, resume} \<longrightarrow> status (fold (\<lambda>call. call) calls (stop t)) = STOPPED)"
proof -
  have keep: "status (fold (\<lambda>call. call) calls t') = STOPPED"
    if "set calls \<subseteq> {pause, resume}" "status t' = STOPPED" for calls t'
    using that by (induction calls arbitrary: t') (auto simp: pause_def resume_def)
  show ?thesis
    using keep[of _ "stop t"] by (auto simp: init_def Let_def pause_def resume_def stop_def)
qed

theorem poller_state_machine_witness:
  "init default_files 60 ''usd'' = Inl (ValueError ''CANT START UPDATER, NO CRYPTOCURRENCY FOUND'')
   \<and> (\<exists>t0. init example_data 60 ''usd'' = Inr t0 \<and> status t0 = RUNNING)
   \<and> pause \<lparr>error_count = 0, update_time = 60, vs_currency = ''usd'', last_update = [],
             stop_event = False, currency_ids = [''bitcoin''], status = RUNNING\<rparr>
        = \<lparr>error_count = 0, update_time = 60, vs_currency = ''usd'', last_update = [],
             stop_event = False, currency_ids = [''bitcoin''], status = PAUSED\<rparr>
   \<and> resume \<lparr>error_count = 0, update_time = 60, vs_currency = ''usd'', last_update = [],
             stop_event = False, currency_ids = [''bitcoin''], status = RUNNING\<rparr>
        = \<lparr>error_count = 0, update_time = 60, vs_currency = ''usd'', last_update = [],
             stop_event = False, currency_ids = [''bitcoin''], status = RUNNING\<rparr>
   \<and> status (fold (\<lambda>call. call) [pause, resume, resume]
        (stop \<lparr>error_count = 0, update_time = 60, vs_currency = ''usd'', last_update = [],
             stop_event = False, currency_ids = [''bitcoin''], status = RUNNING\<rparr>)) = STOPPED"
proof -
  let ?t = "\<lparr>error_count = 0, update_time = 60, vs_currency = ''usd'', last_update = [],
             stop_event = False, currency_ids = [''bitcoin''], status = RUNNING\<rparr>"
  have a: "load_cryptocurrency_ids default_files = []" by code_simp
  have b: "load_cryptocurrency_ids example_data \<noteq> []" by code_simp
  have c: "status ?t = RUNNING" "status ?t \<noteq> PAUSED" by simp_all
  have d: "set [pause, resume, resume] \<subseteq> {pause, resume}" by simp
  have e: "?t\<lparr>status := PAUSED\<rparr> = \<lparr>error_count = 0, update_time = 60, vs_currency = ''usd'', last_update = [],
             stop_event = False, currency_ids = [''bitcoin''], status = PAUSED\<rparr>" by simp
  show ?thesis
    using poller_state_machine[of default_files 60 "''usd''" ?t]
      poller_state_machine[of example_data 60 "''usd''" ?t] a b c d e
    by metis
qed

section \<open>Statistics: claims\<close>

text \<open>
  Claim C7. \<^verbatim>\<open>load_cryptocur_statistics\<close> starts every asset at min = 100000000 and
  max = 0, leaves samples equal to 0 out of min, max and mean, and reports min = 0,
  mean = 0 and max = 0 for an asset that has no sample other than 0. For a ledger whose
  cells under the requested ids are numbers, with \<open>vs\<close> the samples of the asset other
  than 0: min is the least of 100000000 and \<open>vs\<close>, max the greatest of 0 and \<open>vs\<close>, mean
  the sum of \<open>vs\<close> over their number. On the example of the test suite the result is
  min 47891, max 47892, mean 47891.5 for bitcoin and 3542, 3542, 3542 for ethereum.
\<close>

theorem load_cryptocur_statistics_sentinels:
  assumes "cs = ids_or_all arg (load_cryptocurrency_ids fs)"
      and "distinct cs"
      and "numeric cs (read_csv (prices_csv fs))"
      and "cur \<in> set cs"
      and "vs = filter (\<lambda>x. x \<noteq> 0) (map (\<lambda>row. cell_num row cur) (read_csv (prices_csv fs)))"
  shows "(\<exists>out. load_cryptocur_statistics fs arg = Inr out
            \<and> map_of out cur
                = Some (if vs = [] then \<lparr>stat_min = 0, stat_max = 0, stat_mean = Some 0\<rparr>
                        else \<lparr>stat_min = Min (set (100000000 # vs)), stat_max = Max (set (0 # vs)),
                              stat_mean = Some (sum_list vs / real (length vs))\<rparr>))
       \<and> load_cryptocur_statistics example_data None
            = Inr [(''bitcoin'', \<lparr>stat_min = 47891, stat_max = 47892, stat_mean = Some 47891.5\<rparr>),
                   (''ethereum'', \<lparr>stat_min = 3542, stat_max = 3542, stat_mean = Some 3542\<rparr>)]"
proof -
  have ex: "load_cryptocur_statistics example_data None
            = Inr [(''bitcoin'', \<lparr>stat_min = 47891, stat_max = 47892, stat_mean = Some 47891.5\<rparr>),
                   (''ethereum'', \<lparr>stat_min = 3542, stat_max = 3542, stat_mean = Some 3542\<rparr>)]"
    by code_simp
  show ?thesis
    using statistics_of_column[OF assms(2,3,1,4,5)] ex by blast
qed

theorem load_cryptocur_statistics_sentinels_witness:
  "distinct EXAMPLE_IDS
   \<and> numeric EXAMPLE_IDS (read_csv (prices_csv example_data))
   \<and> filter (\<lambda>x. x \<noteq> 0) (map (\<lambda>row. cell_num row ''ethereum'') (read_csv (prices_csv example_data)))
        = [3542]
   \<and> (\<exists>out. load_cryptocur_statistics example_data None = Inr out
          \<and> map_of out ''ethereum'' = Some \<lparr>stat_min = 3542, stat_max = 3542, stat_mean = Some 3542\<rparr>)
   \<and> filter (\<lambda>x. x \<noteq> 0)
        (map (\<lambda>row. cell_num row ''cardano'')
           (read_csv (prices_csv (snd (add_new_cryptocurrency example_data ''cardano''))))) = []
   \<and> (\<exists>out. load_cryptocur_statistics (snd (add_new_cryptocurrency example_data ''cardano'')) None = Inr out
          \<and> map_of out ''cardano'' = Some \<lparr>stat_min = 0, stat_max = 0, stat_mean = Some 0\<rparr>)"
proof -
  let ?fs = "snd (add_new_cryptocurrency example_data ''cardano'')"
  have a: "EXAMPLE_IDS = ids_or_all None (load_cryptocurrency_ids example_data)" by code_simp
  have b: "distinct EXAMPLE_IDS" by code_simp
  have c: "numeric EXAMPLE_IDS (read_csv (prices_csv example_data))" by code_simp
  have d: "''ethereum'' \<in> set EXAMPLE_IDS" by code_simp
  have e: "[3542] = filter (\<lambda>x. x \<noteq> 0) (map (\<lambda>row. cell_num row ''ethereum'') (read_csv (prices_csv example_data)))"
    by code_simp
  have a2: "[''bitcoin'', ''ethereum'', ''cardano''] = ids_or_all None (load_cryptocurrency_ids ?fs)" by code_simp
  have b2: "distinct [''bitcoin'', ''ethereum'', ''cardano'']" by simp
  have c2: "numeric [''bitcoin'', ''ethereum'', ''cardano''] (read_csv (prices_csv ?fs))" by code_simp
  have d2: "''cardano'' \<in> set [''bitcoin'', ''ethereum'', ''cardano'']" by simp
  have e2: "[] = filter (\<lambda>x. x \<noteq> 0) (map (\<lambda>row. cell_num row ''cardano'') (read_csv (prices_csv ?fs)))"
    by code_simp
  have m: "Min (set [100000000, 3542 :: real]) = 3542" "Max (set [0, 3542 :: real]) = 3542" by simp_all
  show ?thesis
    using load_cryptocur_statistics_sentinels[OF a b c d e]
      load_cryptocur_statistics_sentinels[OF a2 b2 c2 d2 e2] b c e[symmetric] e2[symmetric] m
    by simp
qed

section \<open>Registries: claims\<close>

text \<open>
  Claim C6. \<^verbatim>\<open>remove_cryptocurrency\<close> raises \<^verbatim>\<open>ValueError\<close> ("not found") when the id
  is not in the identifier registry, and \<^verbatim>\<open>ValueError\<close> ("remove cryptocurrency from
  bundles before deleting it") when the id is in the registry and some bundle of the
  bundle registry has it as a member; whenever a bundle has the id as a member the call
  fails, and after each of these failures all four files, the identifier registry and the
  price ledger among them, are as they were.
\<close>

theorem remove_cryptocurrency_referenced:
  "(cid \<notin> set (load_cryptocurrency_ids fs) \<longrightarrow>
      remove_cryptocurrency fs cid = (Inl (ValueError ''GIVEN CRYPTOCURRENCY ID NOT FOUND''), fs))
   \<and> (cid \<in> set (load_cryptocurrency_ids fs) \<and> (\<exists>b\<in>set (load_bundles fs). cid \<in> fst ` set (snd b)) \<longrightarrow>
      remove_cryptocurrency fs cid
        = (Inl (ValueError ''REMOVE CRYPTOCURRENCY FROM BUNDLES BEFORE DELETING IT''), fs))
   \<and> ((\<exists>b\<in>set (load_bundles fs). cid \<in> fst ` set (snd b)) \<longrightarrow>
      (\<exists>e. fst (remove_cryptocurrency fs cid) = Inl e) \<and> snd (remove_cryptocurrency fs cid) = fs)"
proof -
  have ex: "exists_in_bundles fs cid \<longleftrightarrow> (\<exists>b\<in>set (load_bundles fs). cid \<in> fst ` set (snd b))"
    by (auto simp: exists_in_bundles_def list_ex_iff)
  show ?thesis
    unfolding ex[symmetric] by (auto simp: remove_cryptocurrency_def Let_def)
qed

theorem remove_cryptocurrency_referenced_witness:
  "remove_cryptocurrency example_data ''cardano''
     = (Inl (ValueError ''GIVEN CRYPTOCURRENCY ID NOT FOUND''), example_data)
   \<and> ''bitcoin'' \<in> set (load_cryptocurrency_ids example_data)
   \<and> (''test'', [(''bitcoin'', 10)]) \<in> set (load_bundles example_data)
   \<and> remove_cryptocurrency example_data ''bitcoin''
     = (Inl (ValueError ''REMOVE CRYPTOCURRENCY FROM BUNDLES BEFORE DELETING IT''), example_data)"
proof -
  have a: "''cardano'' \<notin> set (load_cryptocurrency_ids example_data)" by code_simp
  have b: "''bitcoin'' \<in> set (load_cryptocurrency_ids example_data)" by code_simp
  have c: "(''test'', [(''bitcoin'', 10)]) \<in> set (load_bundles example_data)" by code_simp
  have d: "\<exists>b\<in>set (load_bundles example_data). ''bitcoin'' \<in> fst ` set (snd b)"
    using c by force
  show ?thesis
    using remove_cryptocurrency_referenced[of "''cardano''" example_data]
      remove_cryptocurrency_referenced[of "''bitcoin''" example_data] a b c d
    by blast
qed

text \<open>
  Claim C2, at the input where the code departs from it: bitcoin is a member of the
  bundle \<open>test\<close> of the example data, and adding it again raises nothing; the call
  replaces the weight 10 by 100 in the bundle registry and recomputes the bundle's column.
\<close>

theorem add_cryptocur_to_bundle_member_again:
  "map_of (load_bundles example_data) ''test'' = Some [(''bitcoin'', 10)]
   \<and> add_cryptocur_to_bundle example_data ''test'' ''bitcoin'' 100
       = (Inr (),
          \<lparr>ids_json = [''bitcoin'', ''ethereum''],
           bundles_json = [(''test'', [(''bitcoin'', 100)])],
           prices_csv = EXAMPLE_PRICES_DATA,
           bundle_prices_csv =
             \<lparr>header = [''timestamp'', ''test''],
              rows = [[Txt ''2022-03-29 14:58:22.365454'', Num 4789100],
                      [Txt ''2022-03-29 14:59:22.365454'', Num 4789200]]\<rparr>\<rparr>)"
  by code_simp

section \<open>Appending a price sample\<close>

lemma dict_to_list_fails:
  "(\<exists>e. dict_to_list hdr d = Inl e) \<longleftrightarrow> (\<exists>k\<in>fst ` set d. k \<notin> Some ` set hdr)"
  by (auto simp: dict_to_list_def list_ex_iff)

lemma dict_to_list_error:
  "dict_to_list hdr d = Inl e \<Longrightarrow> e = ValueError ''dict contains fields not in fieldnames''"
  by (auto simp: dict_to_list_def split: if_splits)

lemma dict_to_list_cells:
  "dict_to_list hdr d = Inr cells \<Longrightarrow>
   cells = map (\<lambda>key. case map_of d (Some key) of None \<Rightarrow> Txt [] | Some v \<Rightarrow> str_cell v) hdr"
  by (auto simp: dict_to_list_def split: if_splits)

text \<open>
  Claim C5, amended. With \<open>hdr\<close> the header in force (the one given, or the registry's
  when none or an empty one is given): \<^verbatim>\<open>write_cryptocur_prices_entry\<close> raises
  \<^verbatim>\<open>ValueError\<close> "CRYPTOCURRENCY VALUE MISSING" exactly when the sample has no value for
  some column after the first of \<open>hdr\<close>; it fails at all exactly when it has no such value
  or holds a key that is not a column of \<open>hdr\<close>; a failure leaves all files as they were;
  a success changes only the price ledger, by appending one row that holds, column by
  column of \<open>hdr\<close>, the sample's value, while the header line and the rows before stay.
\<close>

theorem write_cryptocur_prices_entry_outcomes:
  assumes "hdr = (if header_arg = None \<or> header_arg = Some []
                  then ''timestamp'' # load_cryptocurrency_ids fs
                  else (case header_arg of Some h \<Rightarrow> h | None \<Rightarrow> []))"
  shows "(fst (write_cryptocur_prices_entry fs data header_arg)
            = Inl (ValueError ''CRYPTOCURRENCY VALUE MISSING'')
          \<longleftrightarrow> (\<exists>c\<in>set (drop 1 hdr). Some c \<notin> fst ` set data))
       \<and> ((\<exists>e. fst (write_cryptocur_prices_entry fs data header_arg) = Inl e)
          \<longleftrightarrow> (\<exists>c\<in>set (drop 1 hdr). Some c \<notin> fst ` set data)
              \<or> (\<exists>k\<in>fst ` set data. k \<notin> Some ` set hdr))
       \<and> ((\<exists>e. fst (write_cryptocur_prices_entry fs data header_arg) = Inl e)
          \<longrightarrow> snd (write_cryptocur_prices_entry fs data header_arg) = fs)
       \<and> (fst (write_cryptocur_prices_entry fs data header_arg) = Inr ()
          \<longrightarrow> snd (write_cryptocur_prices_entry fs data header_arg)
                = fs\<lparr>prices_csv :=
                       \<lparr>header = header (prices_csv fs),
                        rows = rows (prices_csv fs)
                          @ [map (\<lambda>c. case map_of data (Some c) of
                                         None \<Rightarrow> Txt []
                                       | Some v \<Rightarrow> str_cell v) hdr]\<rparr>\<rparr>)"
proof (cases "\<exists>c\<in>set (drop 1 hdr). Some c \<notin> fst ` set data")
  case True
  then have "write_cryptocur_prices_entry fs data header_arg
      = (Inl (ValueError ''CRYPTOCURRENCY VALUE MISSING''), fs)"
    using assms by (auto simp: write_cryptocur_prices_entry_def Let_def list_ex_iff)
  then show ?thesis using True by simp
next
  case False
  then have w: "write_cryptocur_prices_entry fs data header_arg
      = (case write_csv_entry (prices_csv fs) data hdr of
           Inl e \<Rightarrow> (Inl e, fs)
         | Inr p \<Rightarrow> (Inr (), fs\<lparr>prices_csv := p\<rparr>))"
    using assms by (auto simp: write_cryptocur_prices_entry_def Let_def list_ex_iff)
  show ?thesis
  proof (cases "dict_to_list hdr data")
    case (Inl e)
    then have "write_cryptocur_prices_entry fs data header_arg
        = (Inl (ValueError ''dict contains fields not in fieldnames''), fs)"
      using w dict_to_list_error[OF Inl] by (simp add: write_csv_entry_def bnd_def)
    moreover have "\<exists>k\<in>fst ` set data. k \<notin> Some ` set hdr"
      using Inl dict_to_list_fails[of hdr data] by blast
    ultimately show ?thesis using False by simp
  next
    case (Inr cells)
    then have "write_cryptocur_prices_entry fs data header_arg
        = (Inr (), fs\<lparr>prices_csv := (prices_csv fs)\<lparr>rows := rows (prices_csv fs) @ [cells]\<rparr>\<rparr>)"
      using w by (simp add: write_csv_entry_def bnd_def)
    moreover have "\<not> (\<exists>k\<in>fst ` set data. k \<notin> Some ` set hdr)"
      using Inr dict_to_list_fails[of hdr data] by auto
    ultimately show ?thesis using False dict_to_list_cells[OF Inr] by simp
  qed
qed

theorem write_cryptocur_prices_entry_outcomes_witness:
  "write_cryptocur_prices_entry example_data
       [(Some ''timestamp'', Cell (Txt ''2022-03-29 15:00:22'')), (Some ''bitcoin'', Cell (Num 100)),
        (Some ''ethereum'', Cell (Num 100))] None
     = (Inr (),
        example_data\<lparr>prices_csv :=
          \<lparr>header = [''timestamp'', ''bitcoin'', ''ethereum''],
           rows = [[Txt ''2022-03-29 14:58:22.365454'', Num 47891, Num 0],
                   [Txt ''2022-03-29 14:59:22.365454'', Num 47892, Num 3542],
                   [Txt ''2022-03-29 15:00:22'', Num 100, Num 100]]\<rparr>\<rparr>)
   \<and> write_cryptocur_prices_entry example_data [(Some ''timestamp'', Cell (Txt ''2022-03-29 15:00:22''))] None
     = (Inl (ValueError ''CRYPTOCURRENCY VALUE MISSING''), example_data)"
proof -
  let ?d = "[(Some ''timestamp'', Cell (Txt ''2022-03-29 15:00:22'')), (Some ''bitcoin'', Cell (Num 100)),
        (Some ''ethereum'', Cell (Num 100))]"
  let ?d2 = "[(Some ''timestamp'', Cell (Txt ''2022-03-29 15:00:22''))]"
  let ?h = "[''timestamp'', ''bitcoin'', ''ethereum'']"
  have h: "?h = (if (None :: string list option) = None \<or> None = Some []
                  then ''timestamp'' # load_cryptocurrency_ids example_data
                  else (case None of Some h \<Rightarrow> h | None \<Rightarrow> []))"
    by code_simp
  have ok: "\<not> (\<exists>c\<in>set (drop 1 ?h). Some c \<notin> fst ` set ?d)"
    "\<not> (\<exists>k\<in>fst ` set ?d. k \<notin> Some ` set ?h)" by simp_all
  have bad: "\<exists>c\<in>set (drop 1 ?h). Some c \<notin> fst ` set ?d2" by simp
  have r: "example_data\<lparr>prices_csv :=
             \<lparr>header = header (prices_csv example_data),
              rows = rows (prices_csv example_data)
                @ [map (\<lambda>c. case map_of ?d (Some c) of None \<Rightarrow> Txt [] | Some v \<Rightarrow> str_cell v) ?h]\<rparr>\<rparr>
      = example_data\<lparr>prices_csv :=
          \<lparr>header = [''timestamp'', ''bitcoin'', ''ethereum''],
           rows = [[Txt ''2022-03-29 14:58:22.365454'', Num 47891, Num 0],
                   [Txt ''2022-03-29 14:59:22.365454'', Num 47892, Num 3542],
                   [Txt ''2022-03-29 15:00:22'', Num 100, Num 100]]\<rparr>\<rparr>"
    by (simp add: example_data_def EXAMPLE_PRICES_DATA_def)
  have one: "fst (write_cryptocur_prices_entry example_data ?d None) = Inr ()"
    using write_cryptocur_prices_entry_outcomes[OF h, of ?d] ok
    by (cases "fst (write_cryptocur_prices_entry example_data ?d None)") auto
  have two: "snd (write_cryptocur_prices_entry example_data ?d None)
      = example_data\<lparr>prices_csv :=
          \<lparr>header = [''timestamp'', ''bitcoin'', ''ethereum''],
           rows = [[Txt ''2022-03-29 14:58:22.365454'', Num 47891, Num 0],
                   [Txt ''2022-03-29 14:59:22.365454'', Num 47892, Num 3542],
                   [Txt ''2022-03-29 15:00:22'', Num 100, Num 100]]\<rparr>\<rparr>"
    using write_cryptocur_prices_entry_outcomes[OF h, of ?d] one r by simp
  have three: "fst (write_cryptocur_prices_entry example_data ?d2 None)
      = Inl (ValueError ''CRYPTOCURRENCY VALUE MISSING'')"
    "snd (write_cryptocur_prices_entry example_data ?d2 None) = example_data"
    using write_cryptocur_prices_entry_outcomes[OF h, of ?d2] bad by blast+
  show ?thesis using one two three by (simp add: prod_eq_iff)
qed

theorem write_cryptocur_prices_entry_counterexample:
  "map_of [(Some ''timestamp'', Cell (Txt ''2022-03-29 15:00:22'')), (Some ''bitcoin'', Cell (Num 100)),
           (Some ''ethereum'', Cell (Num 100)), (Some ''cardano'', Cell (Num 1))] (Some ''bitcoin'')
     = Some (Cell (Num 100))
   \<and> map_of [(Some ''timestamp'', Cell (Txt ''2022-03-29 15:00:22'')), (Some ''bitcoin'', Cell (Num 100)),
           (Some ''ethereum'', Cell (Num 100)), (Some ''cardano'', Cell (Num 1))] (Some ''ethereum'')
     = Some (Cell (Num 100))
   \<and> write_cryptocur_prices_entry example_data
        [(Some ''timestamp'', Cell (Txt ''2022-03-29 15:00:22'')), (Some ''bitcoin'', Cell (Num 100)),
         (Some ''ethereum'', Cell (Num 100)), (Some ''cardano'', Cell (Num 1))]
        (Some [''timestamp'', ''bitcoin'', ''ethereum''])
     = (Inl (ValueError ''dict contains fields not in fieldnames''), example_data)"
  by code_simp

section \<open>Adding and removing a column\<close>


lemma map_rows_mem:
  "map_rows f xs = Inr ys \<Longrightarrow> y \<in> set ys \<Longrightarrow> \<exists>x\<in>set xs. f x = Inr y"
  by (induction xs arbitrary: ys) (auto split: sum.splits)

lemma dict_to_list_length: "dict_to_list hdr d = Inr cells \<Longrightarrow> length cells = length hdr"
  by (auto simp: dict_to_list_def split: if_splits)


lemma keys_read_row:
  "length r = length hdr \<Longrightarrow> fst ` set (read_row hdr r) = Some ` set hdr"
proof -
  assume l: "length r = length hdr"
  have "fst ` set (read_row hdr r) = dom (map_of (AList.updates (map Some hdr) (map Cell r) []))"
    using l by (simp add: read_row_def Let_def dom_map_of_conv_image_fst)
  also have "\<dots> = Some ` set hdr"
    using l by (simp add: updates_conv' dom_map_upds)
  finally show ?thesis .
qed






section \<open>What the loaders leave out\<close>

text \<open>
  Claim C10. The loaders differ in what they leave out. For a price ledger whose cells
  under the requested ids are numbers and whose timestamps parse, \<^verbatim>\<open>load_cryptocur_prices\<close>
  returns for an asset exactly the values of its column that are greater than 0, and
  \<^verbatim>\<open>load_cryptocur_plot_prices\<close> those of the sampled rows that are greater than 0, while
  the scan of \<^verbatim>\<open>load_cryptocur_statistics\<close> sums and counts every value other than 0.
  So a negative value of the column is in neither loaded series, but it is among the
  counted samples, it enters the mean, and the reported min is at most that value.
\<close>

theorem loaders_differ_on_negative_values:
  assumes cs: "cs = ids_or_all arg (load_cryptocurrency_ids fs)"
      and d: "distinct cs"
      and nts: "''timestamp'' \<notin> set cs"
      and num: "numeric cs (read_csv (prices_csv fs))"
      and ts: "list_all (has_stamp accepts) (read_csv (prices_csv fs))"
      and cur: "cur \<in> set cs"
      and col: "col = map (\<lambda>row. cell_num row cur) (read_csv (prices_csv fs))"
      and smp: "sampled = map (\<lambda>(i, row). cell_num row cur)
                  (filter (\<lambda>(i, row). i mod calculate_plotting_point_ratio fs = 0)
                     (enumerate 0 (read_csv (prices_csv fs))))"
      and nz: "nz = filter (\<lambda>x. x \<noteq> 0) col"
  shows "\<exists>prices plot price_sums stats out.
           load_cryptocur_prices accepts fs arg = Inr prices
         \<and> map_of prices cur = Some (map Price (filter (\<lambda>x. 0 < x) col))
         \<and> load_cryptocur_plot_prices accepts fs arg = Inr plot
         \<and> map_of plot cur = Some (map Price (filter (\<lambda>x. 0 < x) sampled))
         \<and> fold_rows (scan_row cs) (read_csv (prices_csv fs)) (init_scan cs) = Inr (price_sums, stats)
         \<and> map_of price_sums cur = Some (sum_list nz, length nz)
         \<and> load_cryptocur_statistics fs arg = Inr out
         \<and> (\<forall>v\<in>set col. v < 0 \<longrightarrow>
               Price v \<notin> set (map Price (filter (\<lambda>x. 0 < x) col))
             \<and> Price v \<notin> set (map Price (filter (\<lambda>x. 0 < x) sampled))
             \<and> v \<in> set nz
             \<and> (\<exists>st. map_of out cur = Some st \<and> stat_min st \<le> v
                    \<and> stat_mean st = Some (sum_list nz / real (length nz))))"
proof -
  have ct: "cur \<noteq> ''timestamp''" using cur nts by auto
  obtain prices where p: "load_cryptocur_prices accepts fs arg = Inr prices"
      "map_of prices cur = Some (map Price (filter (\<lambda>x. 0 < x) col))"
    using load_prices_ok[OF d cur ct num ts cs] col by blast
  obtain plot where q: "load_cryptocur_plot_prices accepts fs arg = Inr plot"
      "map_of plot cur = Some (map Price (filter (\<lambda>x. 0 < x) sampled))"
    using load_plotting_prices_ok[OF d cur ct num ts, of fs] cs smp
    unfolding load_cryptocur_plot_prices_def by auto
  obtain price_sums stats out where s:
      "fold_rows (scan_row cs) (read_csv (prices_csv fs)) (init_scan cs) = Inr (price_sums, stats)"
      "map_of price_sums cur = Some (sum_list nz, length nz)"
      "load_cryptocur_statistics fs arg = Inr out"
      "map_of out cur
         = Some (if nz = [] then \<lparr>stat_min = 0, stat_max = 0, stat_mean = Some 0\<rparr>
                 else \<lparr>stat_min = Min (set (100000000 # nz)), stat_max = Max (set (0 # nz)),
                       stat_mean = Some (sum_list nz / real (length nz))\<rparr>)"
    using statistics_of_column[OF d num cs cur, of nz] nz col by blast
  have neg: "Price v \<notin> set (map Price (filter (\<lambda>x. 0 < x) col))
           \<and> Price v \<notin> set (map Price (filter (\<lambda>x. 0 < x) sampled))
           \<and> v \<in> set nz
           \<and> (\<exists>st. map_of out cur = Some st \<and> stat_min st \<le> v
                  \<and> stat_mean st = Some (sum_list nz / real (length nz)))"
    if v: "v \<in> set col" "v < 0" for v
  proof -
    have a: "Price v \<notin> set (map Price (filter (\<lambda>x. 0 < x) col))"
        "Price v \<notin> set (map Price (filter (\<lambda>x. 0 < x) sampled))"
      using v(2) by auto
    have b: "v \<in> set nz" using v nz by simp
    then have ne: "nz \<noteq> []" by auto
    have "Min (set (100000000 # nz)) \<le> v"
      by (rule Min_le) (use b in simp_all)
    then show ?thesis using a b ne s(4) by simp
  qed
  show ?thesis using p q s(1,2,3) neg by blast
qed

theorem loaders_differ_on_negative_values_witness:
  "numeric [''bitcoin''] (read_csv (prices_csv negative_data))
   \<and> list_all (has_stamp (\<lambda>s. s \<noteq> [])) (read_csv (prices_csv negative_data))
   \<and> map (\<lambda>row. cell_num row ''bitcoin'') (read_csv (prices_csv negative_data)) = [- 5, 0, 3]
   \<and> (\<exists>prices. load_cryptocur_prices (\<lambda>s. s \<noteq> []) negative_data None = Inr prices
          \<and> map_of prices ''bitcoin'' = Some [Price 3])
   \<and> (\<exists>plot. load_cryptocur_plot_prices (\<lambda>s. s \<noteq> []) negative_data None = Inr plot
          \<and> map_of plot ''bitcoin'' = Some [Price 3])
   \<and> (\<exists>price_sums stats.
          fold_rows (scan_row [''bitcoin'']) (read_csv (prices_csv negative_data)) (init_scan [''bitcoin''])
            = Inr (price_sums, stats)
          \<and> map_of price_sums ''bitcoin'' = Some (- 2, 2))
   \<and> (\<exists>out st. load_cryptocur_statistics negative_data None = Inr out
          \<and> map_of out ''bitcoin'' = Some st \<and> stat_min st \<le> - 5 \<and> stat_mean st = Some (- 1))"
proof -
  let ?rs = "read_csv (prices_csv negative_data)"
  have cs: "[''bitcoin''] = ids_or_all None (load_cryptocurrency_ids negative_data)" by code_simp
  have d: "distinct [''bitcoin'']" by simp
  have nts: "''timestamp'' \<notin> set [''bitcoin'']" by simp
  have num: "numeric [''bitcoin''] ?rs" by code_simp
  have ts: "list_all (has_stamp (\<lambda>s. s \<noteq> [])) ?rs" by code_simp
  have cur: "''bitcoin'' \<in> set [''bitcoin'']" by simp
  have col: "[- 5, 0, 3] = map (\<lambda>row. cell_num row ''bitcoin'') ?rs" by code_simp
  have smp: "[- 5, 0, 3] = map (\<lambda>(i, row). cell_num row ''bitcoin'')
                  (filter (\<lambda>(i, row). i mod calculate_plotting_point_ratio negative_data = 0)
                     (enumerate 0 ?rs))" by code_simp
  have nz: "[- 5, 3] = filter (\<lambda>x. x \<noteq> 0) [- 5, 0, 3 :: real]" by simp
  obtain prices plot price_sums stats out where r:
      "load_cryptocur_prices (\<lambda>s. s \<noteq> []) negative_data None = Inr prices"
      "map_of prices ''bitcoin'' = Some (map Price (filter (\<lambda>x. 0 < x) [- 5, 0, 3]))"
      "load_cryptocur_plot_prices (\<lambda>s. s \<noteq> []) negative_data None = Inr plot"
      "map_of plot ''bitcoin'' = Some (map Price (filter (\<lambda>x. 0 < x) [- 5, 0, 3]))"
      "fold_rows (scan_row [''bitcoin'']) ?rs (init_scan [''bitcoin'']) = Inr (price_sums, stats)"
      "map_of price_sums ''bitcoin'' = Some (sum_list [- 5, 3], length [- 5, 3 :: real])"
      "load_cryptocur_statistics negative_data None = Inr out"
      "\<forall>v\<in>set [- 5, 0, 3]. v < 0 \<longrightarrow>
         Price v \<notin> set (map Price (filter (\<lambda>x. 0 < x) [- 5, 0, 3]))
         \<and> Price v \<notin> set (map Price (filter (\<lambda>x. 0 < x) [- 5, 0, 3]))
         \<and> v \<in> set [- 5, 3]
         \<and> (\<exists>st. map_of out ''bitcoin'' = Some st \<and> stat_min st \<le> v
                \<and> stat_mean st = Some (sum_list [- 5, 3] / real (length [- 5, 3 :: real])))"
    using loaders_differ_on_negative_values[OF cs d nts num ts cur col smp nz] by blast
  have "(- 5 :: real) \<in> set [- 5, 0, 3]" "(- 5 :: real) < 0" by simp_all
  then obtain st where st: "map_of out ''bitcoin'' = Some st" "stat_min st \<le> - 5"
      "stat_mean st = Some (sum_list [- 5, 3] / real (length [- 5, 3 :: real]))"
    using r(8) by blast
  have e1: "map_of prices ''bitcoin'' = Some [Price 3]" using r(2) by simp
  have e2: "map_of plot ''bitcoin'' = Some [Price 3]" using r(4) by simp
  have e3: "map_of price_sums ''bitcoin'' = Some (- 2, 2)" using r(6) by simp
  have e4: "stat_mean st = Some (- 1)" using st(3) by simp
  show ?thesis
    using num ts col[symmetric] r(1) e1 r(3) e2 r(5) e3 r(7) st(1,2) e4 by blast
qed

section \<open>Bundles without members\<close>

text \<open>
  Claim C1, at the input where the code departs from it. After \<^verbatim>\<open>create_bundle("test1")\<close>
  on the example data the bundle registry holds a bundle without members, which has no
  column in the bundle ledger; every row of the ledger still matches its header. A sample
  appended by \<^verbatim>\<open>write_bundle_prices_entry\<close> then has a cell for \<open>test1\<close> too: the new
  row has three cells under a header of two columns, so as the reader gives it the row has
  a key outside the header.
\<close>

theorem bundle_entry_breaks_ledger:
  "create_bundle example_data ''test1''
     = (Inr (), example_data\<lparr>bundles_json := [(''test'', [(''bitcoin'', 10)]), (''test1'', [])]\<rparr>)
   \<and> ledger_ok (bundle_prices_csv example_data)
   \<and> write_bundle_prices_entry
         (example_data\<lparr>bundles_json := [(''test'', [(''bitcoin'', 10)]), (''test1'', [])]\<rparr>)
         [(Some ''timestamp'', Cell (Txt ''2022-03-29 15:00:22'')), (Some ''bitcoin'', Cell (Num 100)),
          (Some ''ethereum'', Cell (Num 100))]
     = (Inr (),
        example_data\<lparr>bundles_json := [(''test'', [(''bitcoin'', 10)]), (''test1'', [])],
          bundle_prices_csv :=
            \<lparr>header = [''timestamp'', ''test''],
             rows = [[Txt ''2022-03-29 14:58:22.365454'', Num 478910],
                     [Txt ''2022-03-29 14:59:22.365454'', Num 478920],
                     [Txt ''2022-03-29 15:00:22'', Num 1000, Num 0]]\<rparr>\<rparr>)
   \<and> \<not> ledger_ok
         \<lparr>header = [''timestamp'', ''test''],
          rows = [[Txt ''2022-03-29 14:58:22.365454'', Num 478910],
                  [Txt ''2022-03-29 14:59:22.365454'', Num 478920],
                  [Txt ''2022-03-29 15:00:22'', Num 1000, Num 0]]\<rparr>"
proof -
  have a: "create_bundle example_data ''test1''
     = (Inr (), example_data\<lparr>bundles_json := [(''test'', [(''bitcoin'', 10)]), (''test1'', [])]\<rparr>)"
    by code_simp
  have b: "ledger_ok (bundle_prices_csv example_data)"
    by code_simp
  have c: "write_bundle_prices_entry
         (example_data\<lparr>bundles_json := [(''test'', [(''bitcoin'', 10)]), (''test1'', [])]\<rparr>)
         [(Some ''timestamp'', Cell (Txt ''2022-03-29 15:00:22'')), (Some ''bitcoin'', Cell (Num 100)),
          (Some ''ethereum'', Cell (Num 100))]
     = (Inr (),
        example_data\<lparr>bundles_json := [(''test'', [(''bitcoin'', 10)]), (''test1'', [])],
          bundle_prices_csv :=
            \<lparr>header = [''timestamp'', ''test''],
             rows = [[Txt ''2022-03-29 14:58:22.365454'', Num 478910],
                     [Txt ''2022-03-29 14:59:22.365454'', Num 478920],
                     [Txt ''2022-03-29 15:00:22'', Num 1000, Num 0]]\<rparr>\<rparr>)"
    by code_simp
  have d: "\<not> ledger_ok
         \<lparr>header = [''timestamp'', ''test''],
          rows = [[Txt ''2022-03-29 14:58:22.365454'', Num 478910],
                  [Txt ''2022-03-29 14:59:22.365454'', Num 478920],
                  [Txt ''2022-03-29 15:00:22'', Num 1000, Num 0]]\<rparr>"
    by code_simp
  show ?thesis using a b c d by blast
qed

text \<open>
  Claim C8, at the input where the code departs from it. With the memberless bundle
  \<open>test1\<close> in the registry, \<^verbatim>\<open>convert_prices(2)\<close> doubles the values but writes the
  bundle ledger under the header of the registry: the ledger gains the column \<open>test1\<close>,
  with an empty cell in every row. \<^verbatim>\<open>convert_prices(0.5)\<close> then halves the price ledger
  and raises \<^verbatim>\<open>ValueError\<close> at the empty cells of the bundle ledger, whose values stay
  doubled.
\<close>

theorem convert_prices_with_empty_bundle:
  "convert_prices (example_data\<lparr>bundles_json := [(''test'', [(''bitcoin'', 10)]), (''test1'', [])]\<rparr>) 2
     = (Inr (),
        \<lparr>ids_json = [''bitcoin'', ''ethereum''],
         bundles_json = [(''test'', [(''bitcoin'', 10)]), (''test1'', [])],
         prices_csv =
           \<lparr>header = [''timestamp'', ''bitcoin'', ''ethereum''],
            rows = [[Txt ''2022-03-29 14:58:22.365454'', Num 95782, Num 0],
                    [Txt ''2022-03-29 14:59:22.365454'', Num 95784, Num 7084]]\<rparr>,
         bundle_prices_csv =
           \<lparr>header = [''timestamp'', ''test'', ''test1''],
            rows = [[Txt ''2022-03-29 14:58:22.365454'', Num 957820, Txt []],
                    [Txt ''2022-03-29 14:59:22.365454'', Num 957840, Txt []]]\<rparr>\<rparr>)
   \<and> convert_prices
        \<lparr>ids_json = [''bitcoin'', ''ethereum''],
         bundles_json = [(''test'', [(''bitcoin'', 10)]), (''test1'', [])],
         prices_csv =
           \<lparr>header = [''timestamp'', ''bitcoin'', ''ethereum''],
            rows = [[Txt ''2022-03-29 14:58:22.365454'', Num 95782, Num 0],
                    [Txt ''2022-03-29 14:59:22.365454'', Num 95784, Num 7084]]\<rparr>,
         bundle_prices_csv =
           \<lparr>header = [''timestamp'', ''test'', ''test1''],
            rows = [[Txt ''2022-03-29 14:58:22.365454'', Num 957820, Txt []],
                    [Txt ''2022-03-29 14:59:22.365454'', Num 957840, Txt []]]\<rparr>\<rparr> (1 / 2)
     = (Inl (ValueError ''could not convert string to float''),
        \<lparr>ids_json = [''bitcoin'', ''ethereum''],
         bundles_json = [(''test'', [(''bitcoin'', 10)]), (''test1'', [])],
         prices_csv =
           \<lparr>header = [''timestamp'', ''bitcoin'', ''ethereum''],
            rows = [[Txt ''2022-03-29 14:58:22.365454'', Num 47891, Num 0],
                    [Txt ''2022-03-29 14:59:22.365454'', Num 47892, Num 3542]]\<rparr>,
         bundle_prices_csv =
           \<lparr>header = [''timestamp'', ''test'', ''test1''],
            rows = [[Txt ''2022-03-29 14:58:22.365454'', Num 957820, Txt []],
                    [Txt ''2022-03-29 14:59:22.365454'', Num 957840, Txt []]]\<rparr>\<rparr>)"
proof -
  have a: "convert_prices (example_data\<lparr>bundles_json := [(''test'', [(''bitcoin'', 10)]), (''test1'', [])]\<rparr>) 2
     = (Inr (),
        \<lparr>ids_json = [''bitcoin'', ''ethereum''],
         bundles_json = [(''test'', [(''bitcoin'', 10)]), (''test1'', [])],
         prices_csv =
           \<lparr>header = [''timestamp'', ''bitcoin'', ''ethereum''],
            rows = [[Txt ''2022-03-29 14:58:22.365454'', Num 95782, Num 0],
                    [Txt ''2022-03-29 14:59:22.365454'', Num 95784, Num 7084]]\<rparr>,
         bundle_prices_csv =
           \<lparr>header = [''timestamp'', ''test'', ''test1''],
            rows = [[Txt ''2022-03-29 14:58:22.365454'', Num 957820, Txt []],
                    [Txt ''2022-03-29 14:59:22.365454'', Num 957840, Txt []]]\<rparr>\<rparr>)"
    by code_simp
  have b: "convert_prices
        \<lparr>ids_json = [''bitcoin'', ''ethereum''],
         bundles_json = [(''test'', [(''bitcoin'', 10)]), (''test1'', [])],
         prices_csv =
           \<lparr>header = [''timestamp'', ''bitcoin'', ''ethereum''],
            rows = [[Txt ''2022-03-29 14:58:22.365454'', Num 95782, Num 0],
                    [Txt ''2022-03-29 14:59:22.365454'', Num 95784, Num 7084]]\<rparr>,
         bundle_prices_csv =
           \<lparr>header = [''timestamp'', ''test'', ''test1''],
            rows = [[Txt ''2022-03-29 14:58:22.365454'', Num 957820, Txt []],
                    [Txt ''2022-03-29 14:59:22.365454'', Num 957840, Txt []]]\<rparr>\<rparr> (1 / 2)
     = (Inl (ValueError ''could not convert string to float''),
        \<lparr>ids_json = [''bitcoin'', ''ethereum''],
         bundles_json = [(''test'', [(''bitcoin'', 10)]), (''test1'', [])],
         prices_csv =
           \<lparr>header = [''timestamp'', ''bitcoin'', ''ethereum''],
            rows = [[Txt ''2022-03-29 14:58:22.365454'', Num 47891, Num 0],
                    [Txt ''2022-03-29 14:59:22.365454'', Num 47892, Num 3542]]\<rparr>,
         bundle_prices_csv =
           \<lparr>header = [''timestamp'', ''test'', ''test1''],
            rows = [[Txt ''2022-03-29 14:58:22.365454'', Num 957820, Txt []],
                    [Txt ''2022-03-29 14:59:22.365454'', Num 957840, Txt []]]\<rparr>\<rparr>)"
    by code_simp
  show ?thesis using a b by blast
qed

section \<open>Rows that match the header\<close>

lemma set_update_subset: "set (AList.update k v al) \<subseteq> insert (k, v) (set al)"
  by (induction al) auto

lemma set_updates_subset: "set (AList.updates ks vs al) \<subseteq> set al \<union> set (zip ks vs)"
proof (induction ks arbitrary: vs al)
  case Nil
  then show ?case by simp
next
  case (Cons k ks)
  show ?case
  proof (cases vs)
    case Nil
    then show ?thesis by simp
  next
    case (Cons v vs')
    have "set (AList.updates ks vs' (AList.update k v al))
        \<subseteq> set (AList.update k v al) \<union> set (zip ks vs')"
      by (rule Cons.IH)
    then show ?thesis using Cons set_update_subset[of k v al] by auto
  qed
qed

lemma read_row_matches:
  assumes l: "length r = length hdr"
  shows "row_matches hdr (read_row hdr r)"
proof -
  have rr: "read_row hdr r = AList.updates (map Some hdr) (map Cell r) []"
    using l by (simp add: read_row_def Let_def)
  have keys: "fst ` set (read_row hdr r) = Some ` set hdr"
    using l by (rule keys_read_row)
  have vals: "\<exists>c. v = Cell c" if "(k, v) \<in> set (read_row hdr r)" for k v
  proof -
    have "(k, v) \<in> set (zip (map Some hdr) (map Cell r))"
      using that set_updates_subset[of "map Some hdr" "map Cell r" "[]"] unfolding rr by auto
    then have "v \<in> set (map Cell r)" by (rule set_zip_rightD)
    then show ?thesis by auto
  qed
  have a: "list_all (\<lambda>k. k \<in> set (map Some hdr)) (map fst (read_row hdr r))"
    using keys by (auto simp: list_all_iff)
  have b: "(case map_of (read_row hdr r) (Some c) of None \<Rightarrow> False | Some PyNone \<Rightarrow> False | Some v \<Rightarrow> True)"
    if c: "c \<in> set hdr" for c
  proof -
    have "Some c \<in> fst ` set (read_row hdr r)" using keys c by simp
    then obtain v where v: "map_of (read_row hdr r) (Some c) = Some v"
      by (cases "map_of (read_row hdr r) (Some c)") (auto simp: map_of_eq_None_iff)
    then have "(Some c, v) \<in> set (read_row hdr r)" by (rule map_of_SomeD)
    then obtain x where "v = Cell x" using vals by blast
    then show ?thesis using v by simp
  qed
  show ?thesis unfolding row_matches_def using a b by (simp add: list_all_iff)
qed

lemma rows_ledger_ok:
  "(\<And>r. r \<in> set (rows f) \<Longrightarrow> length r = length (header f)) \<Longrightarrow> ledger_ok f"
  by (auto simp: ledger_ok_def read_csv_def list_all_iff read_row_matches)

lemma written_ledger_ok:
  assumes "map_rows g xs = Inr rs"
      and "\<And>x r. g x = Inr r \<Longrightarrow> length r = length hdr"
  shows "ledger_ok \<lparr>header = hdr, rows = rs\<rparr>"
proof (rule rows_ledger_ok)
  fix r assume "r \<in> set (rows \<lparr>header = hdr, rows = rs\<rparr>)"
  then have "r \<in> set rs" by simp
  then obtain x where "g x = Inr r"
    using map_rows_mem[OF assms(1)] by blast
  then show "length r = length (header \<lparr>header = hdr, rows = rs\<rparr>)"
    using assms(2) by simp
qed

lemma add_column_ledger_ok:
  assumes "add_column_to_csv f c = Inr g"
  shows "ledger_ok g"
proof -
  obtain rs where rs: "map_rows (\<lambda>row. dict_to_list (header f @ [c])
        (AList.update (Some c) (Cell (Num 0)) row)) (read_csv f) = Inr rs"
    and g: "g = \<lparr>header = header f @ [c], rows = rs\<rparr>"
    using assms by (auto simp: add_column_to_csv_def Let_def bnd_def split: sum.splits)
  show ?thesis unfolding g using rs
    by (rule written_ledger_ok) (rule dict_to_list_length)
qed

lemma remove_column_ledger_ok:
  assumes "remove_column_from_csv f c = Inr g"
  shows "ledger_ok g"
proof -
  obtain rs where rs: "map_rows (\<lambda>row. if map_of row (Some c) = None then Inl (KeyError c)
          else dict_to_list (remove1 c (header f)) (AList.delete (Some c) row)) (read_csv f) = Inr rs"
    and g: "g = \<lparr>header = remove1 c (header f), rows = rs\<rparr>"
    using assms by (auto simp: remove_column_from_csv_def Let_def bnd_def split: sum.splits if_splits)
  show ?thesis unfolding g using rs
    by (rule written_ledger_ok) (auto split: if_splits dest: dict_to_list_length)
qed

lemma convert_ledger_ok:
  assumes "convert_price_file_values f hdr factor = Inr g"
  shows "ledger_ok g"
proof -
  obtain rs where rs: "map_rows (\<lambda>row. bnd (convert_row factor row) (dict_to_list hdr)) (read_csv f) = Inr rs"
    and g: "g = \<lparr>header = hdr, rows = rs\<rparr>"
    using assms by (auto simp: convert_price_file_values_def bnd_def split: sum.splits)
  show ?thesis unfolding g using rs
    by (rule written_ledger_ok) (auto simp: bnd_def split: sum.splits dest: dict_to_list_length)
qed

lemma update_bundle_row_length:
  "update_bundle_row hdr bundle_id ms p = Inr r \<Longrightarrow> length r = length hdr"
  by (auto simp: update_bundle_row_def bnd_def split: sum.splits prod.splits dest: dict_to_list_length)

lemma update_bundle_prices_ledger_ok:
  assumes "update_bundle_prices fs bundle_id ms = (Inr u, fs')"
  shows "ledger_ok (bundle_prices_csv fs')"
proof -
  let ?hdr = "''timestamp'' # load_bundle_ids fs"
  obtain rs where rs: "map_rows (update_bundle_row ?hdr bundle_id ms)
        (zip_longest (read_csv (prices_csv fs)) (read_csv (bundle_prices_csv fs))) = Inr rs"
    and g: "bundle_prices_csv fs' = \<lparr>header = ?hdr, rows = rs\<rparr>"
    using assms by (auto simp: update_bundle_prices_def Let_def split: sum.splits)
  show ?thesis unfolding g using rs
    by (rule written_ledger_ok) (rule update_bundle_row_length)
qed

lemma append_ledger_ok:
  assumes ok: "ledger_ok f" and len: "length hdr = length (header f)"
      and w: "write_csv_entry f data hdr = Inr g"
  shows "ledger_ok g"
proof -
  obtain cells where c: "dict_to_list hdr data = Inr cells"
    and g: "g = f\<lparr>rows := rows f @ [cells]\<rparr>"
    using w by (auto simp: write_csv_entry_def bnd_def split: sum.splits)
  have l: "length cells = length (header f)" using dict_to_list_length[OF c] len by simp
  show ?thesis
    using ok read_row_matches[OF l]
    unfolding g by (simp add: ledger_ok_def read_csv_def)
qed

text \<open>
  Every operation that rewrites a ledger leaves it with rows that match the header it
  wrote: no row has a key outside the header or lacks a column. This holds whenever the
  operation returns, whatever the files were before, and so also for the rows that
  \<^verbatim>\<open>_update_bundle_prices\<close> makes up when the bundle ledger is shorter than the price
  ledger. \<^verbatim>\<open>delete_bundle\<close> rewrites only for a bundle with members, so there the
  ledger has to match its header before.
\<close>

theorem rewrites_match_header:
  "(add_new_cryptocurrency fs x = (Inr new_ids, fs') \<longrightarrow> ledger_ok (prices_csv fs'))
   \<and> (remove_cryptocurrency fs x = (Inr new_ids, fs') \<longrightarrow> ledger_ok (prices_csv fs'))
   \<and> (update_bundle_prices fs b ms = (Inr (), fs') \<longrightarrow> ledger_ok (bundle_prices_csv fs'))
   \<and> (add_cryptocur_to_bundle fs b x amount = (Inr (), fs') \<longrightarrow> ledger_ok (bundle_prices_csv fs'))
   \<and> (remove_cryptocur_from_bundle fs b x = (Inr (), fs') \<longrightarrow> ledger_ok (bundle_prices_csv fs'))
   \<and> (ledger_ok (bundle_prices_csv fs) \<and> delete_bundle fs b = (Inr (), fs') \<longrightarrow>
        ledger_ok (bundle_prices_csv fs'))
   \<and> (convert_prices fs factor = (Inr (), fs') \<longrightarrow>
        ledger_ok (prices_csv fs') \<and> ledger_ok (bundle_prices_csv fs'))"
proof -
  have a: "ledger_ok (prices_csv fs')" if "add_new_cryptocurrency fs x = (Inr new_ids, fs')"
    using that add_column_ledger_ok
    by (auto simp: add_new_cryptocurrency_def Let_def split: if_splits sum.splits)
  have r: "ledger_ok (prices_csv fs')" if "remove_cryptocurrency fs x = (Inr new_ids, fs')"
    using that remove_column_ledger_ok
    by (auto simp: remove_cryptocurrency_def Let_def split: if_splits sum.splits)
  have u: "ledger_ok (bundle_prices_csv fs'')" if "update_bundle_prices fs0 b ms0 = (Inr (), fs'')"
    for fs0 ms0 fs''
    using that by (rule update_bundle_prices_ledger_ok)
  have ab: "ledger_ok (bundle_prices_csv fs')" if "add_cryptocur_to_bundle fs b x amount = (Inr (), fs')"
    using that u
    by (auto simp: add_cryptocur_to_bundle_def Let_def split: if_splits option.splits)
  have rb: "ledger_ok (bundle_prices_csv fs')" if "remove_cryptocur_from_bundle fs b x = (Inr (), fs')"
    using that u
    by (auto simp: remove_cryptocur_from_bundle_def Let_def split: if_splits option.splits)
  have d: "ledger_ok (bundle_prices_csv fs')"
    if "ledger_ok (bundle_prices_csv fs)" "delete_bundle fs b = (Inr (), fs')"
    using that remove_column_ledger_ok
    by (auto simp: delete_bundle_def Let_def split: if_splits option.splits sum.splits)
  have c: "ledger_ok (prices_csv fs') \<and> ledger_ok (bundle_prices_csv fs')"
    if "convert_prices fs factor = (Inr (), fs')"
    using that convert_ledger_ok
    by (auto simp: convert_prices_def Let_def split: sum.splits)
  show ?thesis using a r u ab rb d c by blast
qed

theorem rewrites_match_header_witness:
  "fst (add_new_cryptocurrency example_data ''cardano'') = Inr [''bitcoin'', ''ethereum'', ''cardano'']
   \<and> ledger_ok (prices_csv (snd (add_new_cryptocurrency example_data ''cardano'')))
   \<and> fst (remove_cryptocurrency example_data ''ethereum'') = Inr [''bitcoin'']
   \<and> ledger_ok (prices_csv (snd (remove_cryptocurrency example_data ''ethereum'')))
   \<and> update_bundle_prices short_bundle_ledger ''other'' [(''ethereum'', 1)]
       = (Inr (),
          short_bundle_ledger\<lparr>bundle_prices_csv :=
            \<lparr>header = [''timestamp'', ''test'', ''other''],
             rows = [[Txt ''2022-03-29 14:58:22.365454'', Num 478910, Num 0],
                     [Txt ''2022-03-29 14:59:22.365454'', Txt [], Num 3542]]\<rparr>\<rparr>)
   \<and> ledger_ok \<lparr>header = [''timestamp'', ''test'', ''other''],
                 rows = [[Txt ''2022-03-29 14:58:22.365454'', Num 478910, Num 0],
                         [Txt ''2022-03-29 14:59:22.365454'', Txt [], Num 3542]]\<rparr>
   \<and> fst (add_cryptocur_to_bundle example_data ''test'' ''ethereum'' 2) = Inr ()
   \<and> ledger_ok (bundle_prices_csv (snd (add_cryptocur_to_bundle example_data ''test'' ''ethereum'' 2)))
   \<and> fst (remove_cryptocur_from_bundle example_data ''test'' ''bitcoin'') = Inr ()
   \<and> ledger_ok (bundle_prices_csv (snd (remove_cryptocur_from_bundle example_data ''test'' ''bitcoin'')))
   \<and> ledger_ok (bundle_prices_csv example_data)
   \<and> fst (delete_bundle example_data ''test'') = Inr ()
   \<and> ledger_ok (bundle_prices_csv (snd (delete_bundle example_data ''test'')))
   \<and> fst (convert_prices example_data 2) = Inr ()
   \<and> ledger_ok (prices_csv (snd (convert_prices example_data 2)))
   \<and> ledger_ok (bundle_prices_csv (snd (convert_prices example_data 2)))"
proof -
  have a: "fst (add_new_cryptocurrency example_data ''cardano'') = Inr [''bitcoin'', ''ethereum'', ''cardano'']"
    by code_simp
  have r: "fst (remove_cryptocurrency example_data ''ethereum'') = Inr [''bitcoin'']"
    by code_simp
  have u: "update_bundle_prices short_bundle_ledger ''other'' [(''ethereum'', 1)]
       = (Inr (),
          short_bundle_ledger\<lparr>bundle_prices_csv :=
            \<lparr>header = [''timestamp'', ''test'', ''other''],
             rows = [[Txt ''2022-03-29 14:58:22.365454'', Num 478910, Num 0],
                     [Txt ''2022-03-29 14:59:22.365454'', Txt [], Num 3542]]\<rparr>\<rparr>)"
    by code_simp
  have ab: "fst (add_cryptocur_to_bundle example_data ''test'' ''ethereum'' 2) = Inr ()"
    by code_simp
  have rb: "fst (remove_cryptocur_from_bundle example_data ''test'' ''bitcoin'') = Inr ()"
    by code_simp
  have ok: "ledger_ok (bundle_prices_csv example_data)"
    by code_simp
  have d: "fst (delete_bundle example_data ''test'') = Inr ()"
    by code_simp
  have c: "fst (convert_prices example_data 2) = Inr ()"
    by code_simp
  have pair: "p = (x, snd p)" if "fst p = x" for p :: "'a \<times> 'b" and x
    using that by (simp add: prod_eq_iff)
  have 1: "ledger_ok (prices_csv (snd (add_new_cryptocurrency example_data ''cardano'')))"
    using rewrites_match_header[of example_data "''cardano''" "[''bitcoin'', ''ethereum'', ''cardano'']"
        "snd (add_new_cryptocurrency example_data ''cardano'')"] pair[OF a] by blast
  have 2: "ledger_ok (prices_csv (snd (remove_cryptocurrency example_data ''ethereum'')))"
    using rewrites_match_header[of example_data "''ethereum''" "[''bitcoin'']"
        "snd (remove_cryptocurrency example_data ''ethereum'')"] pair[OF r] by blast
  have 3: "ledger_ok \<lparr>header = [''timestamp'', ''test'', ''other''],
                 rows = [[Txt ''2022-03-29 14:58:22.365454'', Num 478910, Num 0],
                         [Txt ''2022-03-29 14:59:22.365454'', Txt [], Num 3542]]\<rparr>"
    using rewrites_match_header[of short_bundle_ledger _ _
        "short_bundle_ledger\<lparr>bundle_prices_csv :=
            \<lparr>header = [''timestamp'', ''test'', ''other''],
             rows = [[Txt ''2022-03-29 14:58:22.365454'', Num 478910, Num 0],
                     [Txt ''2022-03-29 14:59:22.365454'', Txt [], Num 3542]]\<rparr>\<rparr>"
        "''other''" "[(''ethereum'', 1)]"] u by simp
  have 4: "ledger_ok (bundle_prices_csv (snd (add_cryptocur_to_bundle example_data ''test'' ''ethereum'' 2)))"
    using rewrites_match_header[of example_data "''ethereum''" _
        "snd (add_cryptocur_to_bundle example_data ''test'' ''ethereum'' 2)" "''test''" _ 2] pair[OF ab]
    by blast
  have 5: "ledger_ok (bundle_prices_csv (snd (remove_cryptocur_from_bundle example_data ''test'' ''bitcoin'')))"
    using rewrites_match_header[of example_data "''bitcoin''" _
        "snd (remove_cryptocur_from_bundle example_data ''test'' ''bitcoin'')" "''test''"] pair[OF rb]
    by blast
  have 6: "ledger_ok (bundle_prices_csv (snd (delete_bundle example_data ''test'')))"
    using rewrites_match_header[of example_data _ _
        "snd (delete_bundle example_data ''test'')" "''test''"] pair[OF d] ok
    by blast
  have 7: "ledger_ok (prices_csv (snd (convert_prices example_data 2)))
         \<and> ledger_ok (bundle_prices_csv (snd (convert_prices example_data 2)))"
    using rewrites_match_header[of example_data _ _
        "snd (convert_prices example_data 2)" _ _ _ 2] pair[OF c]
    by blast
  show ?thesis using a r u ab rb ok d c 1 2 3 4 5 6 7 by blast
qed

text \<open>
  Appending a sample keeps a ledger's rows matching its header when the header used for
  the new row has as many columns as the header line of the file: for the price ledger
  the header in force, for the bundle ledger \<^verbatim>\<open>timestamp\<close> and all bundles of the
  registry.
\<close>

theorem appends_match_header:
  "(ledger_ok (prices_csv fs)
      \<and> length (if header_arg = None \<or> header_arg = Some []
                 then ''timestamp'' # load_cryptocurrency_ids fs
                 else (case header_arg of Some h \<Rightarrow> h | None \<Rightarrow> []))
          = length (header (prices_csv fs))
      \<and> write_cryptocur_prices_entry fs data header_arg = (Inr (), fs')
      \<longrightarrow> ledger_ok (prices_csv fs'))
   \<and> (ledger_ok (bundle_prices_csv fs)
      \<and> length (''timestamp'' # load_bundle_ids fs) = length (header (bundle_prices_csv fs))
      \<and> write_bundle_prices_entry fs data = (Inr (), fs')
      \<longrightarrow> ledger_ok (bundle_prices_csv fs'))"
proof -
  have p: "ledger_ok (prices_csv fs')"
    if "ledger_ok (prices_csv fs)"
      "length (if header_arg = None \<or> header_arg = Some []
                 then ''timestamp'' # load_cryptocurrency_ids fs
                 else (case header_arg of Some h \<Rightarrow> h | None \<Rightarrow> []))
          = length (header (prices_csv fs))"
      "write_cryptocur_prices_entry fs data header_arg = (Inr (), fs')"
    using that append_ledger_ok[OF that(1,2)]
    by (auto simp: write_cryptocur_prices_entry_def Let_def split: if_splits sum.splits)
  have b: "ledger_ok (bundle_prices_csv fs')"
    if h1: "ledger_ok (bundle_prices_csv fs)"
      and h2: "length (''timestamp'' # load_bundle_ids fs) = length (header (bundle_prices_csv fs))"
      and h3: "write_bundle_prices_entry fs data = (Inr (), fs')"
  proof -
    obtain ts bp g where w: "write_csv_entry (bundle_prices_csv fs) bp
          (''timestamp'' # map fst (load_bundles fs)) = Inr g"
      and g: "fs' = fs\<lparr>bundle_prices_csv := g\<rparr>"
      using h3
      by (auto simp: write_bundle_prices_entry_def Let_def split: sum.splits)
    have "length (''timestamp'' # map fst (load_bundles fs)) = length (header (bundle_prices_csv fs))"
      using h2 by (simp add: load_bundle_ids_def)
    then have "ledger_ok g" using append_ledger_ok[OF h1 _ w] by simp
    then show ?thesis using g by simp
  qed
  show ?thesis using p b by blast
qed

theorem appends_match_header_witness:
  "ledger_ok (prices_csv example_data)
   \<and> fst (write_cryptocur_prices_entry example_data
        [(Some ''timestamp'', Cell (Txt ''2022-03-29 15:00:22'')), (Some ''bitcoin'', Cell (Num 100)),
         (Some ''ethereum'', Cell (Num 100))] None) = Inr ()
   \<and> ledger_ok (prices_csv (snd (write_cryptocur_prices_entry example_data
        [(Some ''timestamp'', Cell (Txt ''2022-03-29 15:00:22'')), (Some ''bitcoin'', Cell (Num 100)),
         (Some ''ethereum'', Cell (Num 100))] None)))
   \<and> ledger_ok (bundle_prices_csv example_data)
   \<and> fst (write_bundle_prices_entry example_data
        [(Some ''timestamp'', Cell (Txt ''2022-03-29 15:00:22'')), (Some ''bitcoin'', Cell (Num 100)),
         (Some ''ethereum'', Cell (Num 100))]) = Inr ()
   \<and> ledger_ok (bundle_prices_csv (snd (write_bundle_prices_entry example_data
        [(Some ''timestamp'', Cell (Txt ''2022-03-29 15:00:22'')), (Some ''bitcoin'', Cell (Num 100)),
         (Some ''ethereum'', Cell (Num 100))])))"
proof -
  let ?d = "[(Some ''timestamp'', Cell (Txt ''2022-03-29 15:00:22'')), (Some ''bitcoin'', Cell (Num 100)),
         (Some ''ethereum'', Cell (Num 100))]"
  have okp: "ledger_ok (prices_csv example_data)" by code_simp
  have okb: "ledger_ok (bundle_prices_csv example_data)" by code_simp
  have lp: "length (if (None :: string list option) = None \<or> None = Some []
                 then ''timestamp'' # load_cryptocurrency_ids example_data
                 else (case None of Some h \<Rightarrow> h | None \<Rightarrow> []))
          = length (header (prices_csv example_data))" by code_simp
  have lb: "length (''timestamp'' # load_bundle_ids example_data)
          = length (header (bundle_prices_csv example_data))" by code_simp
  have wp: "fst (write_cryptocur_prices_entry example_data ?d None) = Inr ()" by code_simp
  have wb: "fst (write_bundle_prices_entry example_data ?d) = Inr ()" by code_simp
  have pair: "p = (x, snd p)" if "fst p = x" for p :: "'a \<times> 'b" and x
    using that by (simp add: prod_eq_iff)
  have 1: "ledger_ok (prices_csv (snd (write_cryptocur_prices_entry example_data ?d None)))"
    using appends_match_header[of example_data None ?d
        "snd (write_cryptocur_prices_entry example_data ?d None)"] okp lp pair[OF wp] by blast
  have 2: "ledger_ok (bundle_prices_csv (snd (write_bundle_prices_entry example_data ?d)))"
    using appends_match_header[of example_data _ ?d
        "snd (write_bundle_prices_entry example_data ?d)"] okb lb pair[OF wb] by blast
  show ?thesis using okp okb wp wb 1 2 by blast
qed

section \<open>Converting ledgers that are in step with the registries\<close>

lemma update_fresh: "k \<notin> fst ` set al \<Longrightarrow> AList.update k v al = al @ [(k, v)]"
  by (induction al) auto

lemma updates_fresh:
  "distinct ks \<Longrightarrow> length ks = length vs \<Longrightarrow> set ks \<inter> fst ` set al = {} \<Longrightarrow>
   AList.updates ks vs al = al @ zip ks vs"
proof (induction ks vs arbitrary: al rule: list_induct2')
  case (4 k ks v vs)
  have "k \<notin> fst ` set al" using 4(4) by auto
  then have u: "AList.update k v al = al @ [(k, v)]" by (rule update_fresh)
  have "set ks \<inter> fst ` set (al @ [(k, v)]) = {}" using 4(2,4) by auto
  then have "AList.updates ks vs (al @ [(k, v)]) = (al @ [(k, v)]) @ zip ks vs"
    using 4 by simp
  then show ?case using u by simp
qed simp_all

lemma read_row_zip:
  "distinct hdr \<Longrightarrow> length r = length hdr \<Longrightarrow>
   read_row hdr r = zip (map Some hdr) (map Cell r)"
  using updates_fresh[of "map Some hdr" "map Cell r" "[]"]
  by (simp add: read_row_def Let_def distinct_map)

lemma convert_row_zip:
  "length hdr = length r \<Longrightarrow> list_all priced_cell (zip hdr r) \<Longrightarrow>
   convert_row factor (zip (map Some hdr) (map Cell r))
     = Inr (zip (map Some hdr) (map Cell (map (\<lambda>(column, c). scale_cell factor column c) (zip hdr r))))"
proof (induction hdr r rule: list_induct2)
  case Nil
  then show ?case by (simp add: convert_row_def)
next
  case (Cons h hdr c r)
  then have ih: "convert_row factor (zip (map Some hdr) (map Cell r))
     = Inr (zip (map Some hdr) (map Cell (map (\<lambda>(column, c). scale_cell factor column c) (zip hdr r))))"
    by simp
  have pc: "priced_cell (h, c)" using Cons.prems by simp
  show ?case
  proof (cases "h = ''timestamp''")
    case True
    then show ?thesis using ih by (simp add: convert_row_def scale_cell_def)
  next
    case False
    then obtain x where "c = Num x" using pc by (cases c) (auto simp: priced_cell_def)
    then show ?thesis using ih False by (simp add: convert_row_def scale_cell_def bnd_def)
  qed
qed

lemma dict_to_list_zip:
  assumes d: "distinct hdr" and l: "length cs = length hdr"
  shows "dict_to_list hdr (zip (map Some hdr) (map Cell cs)) = Inr cs"
proof -
  have keys: "map fst (zip (map Some hdr) (map Cell cs)) = map Some hdr"
    using l by simp
  have "map (\<lambda>key. case map_of (zip (map Some hdr) (map Cell cs)) (Some key) of
                     None \<Rightarrow> Txt [] | Some v \<Rightarrow> str_cell v) hdr = cs"
  proof (rule nth_equalityI)
    show "length (map (\<lambda>key. case map_of (zip (map Some hdr) (map Cell cs)) (Some key) of
                     None \<Rightarrow> Txt [] | Some v \<Rightarrow> str_cell v) hdr) = length cs"
      using l by simp
  next
    fix i assume "i < length (map (\<lambda>key. case map_of (zip (map Some hdr) (map Cell cs)) (Some key) of
                     None \<Rightarrow> Txt [] | Some v \<Rightarrow> str_cell v) hdr)"
    then have i: "i < length hdr" by simp
    have "map_of (zip (map Some hdr) (map Cell cs)) (map Some hdr ! i) = Some (map Cell cs ! i)"
      by (rule map_of_zip_nth) (use d l i in \<open>simp_all add: distinct_map\<close>)
    then show "map (\<lambda>key. case map_of (zip (map Some hdr) (map Cell cs)) (Some key) of
                     None \<Rightarrow> Txt [] | Some v \<Rightarrow> str_cell v) hdr ! i = cs ! i"
      using i l by simp
  qed
  then show ?thesis unfolding dict_to_list_def keys by (simp add: list_ex_iff)
qed

lemma map_rows_ok: "(\<And>x. x \<in> set xs \<Longrightarrow> g x = Inr (k x)) \<Longrightarrow> map_rows g xs = Inr (map k xs)"
  by (induction xs) simp_all

lemma convert_well_formed:
  assumes wf: "well_formed f"
  shows "convert_price_file_values f (header f) factor = Inr (scale_csv factor f)"
proof -
  let ?hdr = "header f"
  let ?sc = "\<lambda>r. map (\<lambda>(column, c). scale_cell factor column c) (zip ?hdr r)"
  have d: "distinct ?hdr" and ne: "?hdr \<noteq> []" using wf by (simp_all add: well_formed_def)
  have rw: "length r = length ?hdr" "list_all priced_cell (zip ?hdr r)" if "r \<in> set (rows f)" for r
    using wf that by (auto simp: well_formed_def list_all_iff)
  have "r \<noteq> []" if "r \<in> set (rows f)" for r
    using rw(1)[OF that] ne by auto
  then have nb: "filter (\<lambda>r. r \<noteq> []) (rows f) = rows f"
    by (simp add: filter_id_conv)
  have one: "bnd (convert_row factor (read_row ?hdr r)) (dict_to_list ?hdr) = Inr (?sc r)"
    if r: "r \<in> set (rows f)" for r
  proof -
    have "read_row ?hdr r = zip (map Some ?hdr) (map Cell r)"
      using d rw(1)[OF r] by (rule read_row_zip)
    moreover have "convert_row factor (zip (map Some ?hdr) (map Cell r))
        = Inr (zip (map Some ?hdr) (map Cell (?sc r)))"
      using rw[OF r] by (simp add: convert_row_zip)
    moreover have "dict_to_list ?hdr (zip (map Some ?hdr) (map Cell (?sc r))) = Inr (?sc r)"
      by (rule dict_to_list_zip) (use d rw(1)[OF r] in simp_all)
    ultimately show ?thesis by (simp add: bnd_def)
  qed
  have "map_rows (\<lambda>row. bnd (convert_row factor row) (dict_to_list ?hdr)) (map (read_row ?hdr) (rows f))
      = Inr (map ?sc (rows f))"
  proof -
    have "map_rows (\<lambda>row. bnd (convert_row factor row) (dict_to_list ?hdr)) (map (read_row ?hdr) (rows f))
        = Inr (map (\<lambda>row. case bnd (convert_row factor row) (dict_to_list ?hdr) of
                            Inr cells \<Rightarrow> cells | Inl e \<Rightarrow> [])
                 (map (read_row ?hdr) (rows f)))"
      by (rule map_rows_ok) (auto simp: one)
    also have "map (\<lambda>row. case bnd (convert_row factor row) (dict_to_list ?hdr) of
                            Inr cells \<Rightarrow> cells | Inl e \<Rightarrow> [])
                 (map (read_row ?hdr) (rows f)) = map ?sc (rows f)"
      by (simp add: one)
    finally show ?thesis .
  qed
  then show ?thesis
    by (simp add: convert_price_file_values_def read_csv_def nb bnd_def scale_csv_def)
qed

lemma scale_rows_length:
  "length (map (\<lambda>(column, c). scale_cell factor column c) (zip hdr r)) = min (length hdr) (length r)"
  by simp

lemma scale_well_formed:
  assumes "well_formed f"
  shows "well_formed (scale_csv factor f)"
proof -
  have "list_all priced_cell (zip hdr (map (\<lambda>(column, c). scale_cell factor column c) (zip hdr r)))"
    if "length r = length hdr" "list_all priced_cell (zip hdr r)" for hdr r
    using that
  proof (induction r hdr rule: list_induct2)
    case Nil
    then show ?case by simp
  next
    case (Cons c r h hdr)
    then show ?case
      by (cases c) (auto simp: priced_cell_def scale_cell_def)
  qed
  then show ?thesis
    using assms by (auto simp: well_formed_def scale_csv_def list_all_iff)
qed

lemma scale_back:
  assumes "well_formed f" and "factor \<noteq> 0"
  shows "scale_csv (1 / factor) (scale_csv factor f) = f"
proof -
  have "map (\<lambda>(column, c). scale_cell (1 / factor) column c)
          (zip hdr (map (\<lambda>(column, c). scale_cell factor column c) (zip hdr r))) = r"
    if "length r = length hdr" "list_all priced_cell (zip hdr r)" for hdr r
    using that
  proof (induction r hdr rule: list_induct2)
    case Nil
    then show ?case by simp
  next
    case (Cons c r h hdr)
    then show ?case using assms(2)
      by (cases c) (auto simp: priced_cell_def scale_cell_def)
  qed
  then have "map (\<lambda>r. map (\<lambda>(column, c). scale_cell (1 / factor) column c)
          (zip (header f) (map (\<lambda>(column, c). scale_cell factor column c) (zip (header f) r)))) (rows f)
        = rows f"
    using assms(1) by (auto simp: well_formed_def list_all_iff map_idI)
  then show ?thesis by (simp add: scale_csv_def comp_def)
qed

text \<open>
  \<^verbatim>\<open>convert_prices\<close> on ledgers in step with the registries. When the header line of
  each ledger is \<^verbatim>\<open>timestamp\<close> followed by the ids of its registry (so every bundle has
  its column), the column names are distinct, and every row has one cell per column with
  a number in every column but \<^verbatim>\<open>timestamp\<close>, the call multiplies every such number by
  the factor in both ledgers and leaves headers, timestamps and the registries as they
  were; converting by a factor other than 0 and then by its inverse gives back the files,
  the arithmetic being that of the real numbers.
\<close>

theorem convert_prices_scales:
  assumes hp: "header (prices_csv fs) = ''timestamp'' # load_cryptocurrency_ids fs"
      and hb: "header (bundle_prices_csv fs) = ''timestamp'' # load_bundle_ids fs"
      and wp: "well_formed (prices_csv fs)"
      and wb: "well_formed (bundle_prices_csv fs)"
  shows "convert_prices fs factor
           = (Inr (), fs\<lparr>prices_csv := scale_csv factor (prices_csv fs),
                         bundle_prices_csv := scale_csv factor (bundle_prices_csv fs)\<rparr>)
       \<and> (factor \<noteq> 0 \<longrightarrow> convert_prices (snd (convert_prices fs factor)) (1 / factor) = (Inr (), fs))"
proof -
  have conv: "convert_prices fs0 k
      = (Inr (), fs0\<lparr>prices_csv := scale_csv k (prices_csv fs0),
                     bundle_prices_csv := scale_csv k (bundle_prices_csv fs0)\<rparr>)"
    if "header (prices_csv fs0) = ''timestamp'' # load_cryptocurrency_ids fs0"
       "header (bundle_prices_csv fs0) = ''timestamp'' # load_bundle_ids fs0"
       "well_formed (prices_csv fs0)" "well_formed (bundle_prices_csv fs0)" for fs0 k
  proof -
    have a: "convert_price_file_values (prices_csv fs0) (''timestamp'' # load_cryptocurrency_ids fs0) k
        = Inr (scale_csv k (prices_csv fs0))"
      using convert_well_formed[OF that(3), of k] that(1) by simp
    have ids: "load_bundle_ids (fs0\<lparr>prices_csv := scale_csv k (prices_csv fs0)\<rparr>) = load_bundle_ids fs0"
      by (simp add: load_bundle_ids_def load_bundles_def)
    have b: "convert_price_file_values (bundle_prices_csv fs0) (''timestamp'' # load_bundle_ids fs0) k
        = Inr (scale_csv k (bundle_prices_csv fs0))"
      using convert_well_formed[OF that(4), of k] that(2) by simp
    show ?thesis by (simp add: convert_prices_def Let_def a ids b)
  qed
  let ?fs1 = "fs\<lparr>prices_csv := scale_csv factor (prices_csv fs),
                 bundle_prices_csv := scale_csv factor (bundle_prices_csv fs)\<rparr>"
  have one: "convert_prices fs factor = (Inr (), ?fs1)"
    using hp hb wp wb by (rule conv)
  have two: "convert_prices ?fs1 (1 / factor) = (Inr (), fs)" if nz: "factor \<noteq> 0"
  proof -
    have "convert_prices ?fs1 (1 / factor)
        = (Inr (), ?fs1\<lparr>prices_csv := scale_csv (1 / factor) (prices_csv ?fs1),
                         bundle_prices_csv := scale_csv (1 / factor) (bundle_prices_csv ?fs1)\<rparr>)"
    proof (rule conv)
      show "header (prices_csv ?fs1) = ''timestamp'' # load_cryptocurrency_ids ?fs1"
        using hp by (simp add: scale_csv_def load_cryptocurrency_ids_def)
      show "header (bundle_prices_csv ?fs1) = ''timestamp'' # load_bundle_ids ?fs1"
        using hb by (simp add: scale_csv_def load_bundle_ids_def load_bundles_def)
      show "well_formed (prices_csv ?fs1)" using wp by (simp add: scale_well_formed)
      show "well_formed (bundle_prices_csv ?fs1)" using wb by (simp add: scale_well_formed)
    qed
    then show ?thesis
      using scale_back[OF wp nz] scale_back[OF wb nz] by simp
  qed
  show ?thesis using one two by simp
qed

theorem convert_prices_scales_witness:
  "header (prices_csv example_data) = ''timestamp'' # load_cryptocurrency_ids example_data
   \<and> header (bundle_prices_csv example_data) = ''timestamp'' # load_bundle_ids example_data
   \<and> well_formed (prices_csv example_data)
   \<and> well_formed (bundle_prices_csv example_data)
   \<and> convert_prices example_data 2
       = (Inr (),
          example_data\<lparr>prices_csv :=
              \<lparr>header = [''timestamp'', ''bitcoin'', ''ethereum''],
               rows = [[Txt ''2022-03-29 14:58:22.365454'', Num 95782, Num 0],
                       [Txt ''2022-03-29 14:59:22.365454'', Num 95784, Num 7084]]\<rparr>,
            bundle_prices_csv :=
              \<lparr>header = [''timestamp'', ''test''],
               rows = [[Txt ''2022-03-29 14:58:22.365454'', Num 957820],
                       [Txt ''2022-03-29 14:59:22.365454'', Num 957840]]\<rparr>\<rparr>)
   \<and> convert_prices (snd (convert_prices example_data 2)) (1 / 2) = (Inr (), example_data)"
proof -
  have hp: "header (prices_csv example_data) = ''timestamp'' # load_cryptocurrency_ids example_data"
    by code_simp
  have hb: "header (bundle_prices_csv example_data) = ''timestamp'' # load_bundle_ids example_data"
    by code_simp
  have wp: "well_formed (prices_csv example_data)" by code_simp
  have wb: "well_formed (bundle_prices_csv example_data)" by code_simp
  have s1: "scale_csv 2 (prices_csv example_data)
      = \<lparr>header = [''timestamp'', ''bitcoin'', ''ethereum''],
         rows = [[Txt ''2022-03-29 14:58:22.365454'', Num 95782, Num 0],
                 [Txt ''2022-03-29 14:59:22.365454'', Num 95784, Num 7084]]\<rparr>"
    by code_simp
  have s2: "scale_csv 2 (bundle_prices_csv example_data)
      = \<lparr>header = [''timestamp'', ''test''],
         rows = [[Txt ''2022-03-29 14:58:22.365454'', Num 957820],
                 [Txt ''2022-03-29 14:59:22.365454'', Num 957840]]\<rparr>"
    by code_simp
  have nz: "(2 :: real) \<noteq> 0" by simp
  show ?thesis
    using convert_prices_scales[OF hp hb wp wb, of 2] hp hb wp wb nz
    unfolding s1 s2 by blast
qed

end
